theory Spec2Isabelle
  imports Main "HOL-Library.Word"
begin

unbundle bit_operations_syntax

text \<open>
  A model of \<^verbatim>\<open>src/libssh/client.c\<close>: the callbacks of the socket, the reception and the
  analysis of the banner, the Diffie-Hellman handshake, \<^verbatim>\<open>connection_callback\<close>,
  \<^verbatim>\<open>ssh_connect\<close>, \<^verbatim>\<open>ssh_disconnect\<close> and the two accessors. The session structure is
  a record that is passed along and returned; the strings and crypto contexts it points to
  live in a heap of cells. The calls of \<^verbatim>\<open>ssh_log\<close>, \<^verbatim>\<open>enter_function\<close> and
  \<^verbatim>\<open>leave_function\<close> change nothing in the session and are left out, as is the packet
  capture, which is compiled only with \<^verbatim>\<open>WITH_PCAP\<close>.
\<close>

section \<open>Constants of the absent headers\<close>

text \<open>
  The file \<^verbatim>\<open>client.c\<close> includes \<^verbatim>\<open>libssh/priv.h\<close>, \<^verbatim>\<open>ssh2.h\<close>,
  \<^verbatim>\<open>session.h\<close> and others that are not part of the sources at hand. What the functions
  of \<^verbatim>\<open>client.c\<close> need from them is declared here.
\<close>

definition SSH_OK :: int where
  \<comment> \<open>Modelled from the spec: \<^verbatim>\<open>libssh/libssh.h\<close> is absent; \<^verbatim>\<open>ssh_connect\<close>
      "returns 0" for success and the source compares results with \<^verbatim>\<open>SSH_OK\<close>.\<close>
  "SSH_OK = 0"

definition SSH_ERROR :: int where
  \<comment> \<open>Modelled from the spec: \<^verbatim>\<open>libssh/libssh.h\<close> is absent; the doc comments of
      the source say "0 on success, < 0 on error"; the value -1 stands for the error result.\<close>
  "SSH_ERROR = - 1"

definition SSH2_MSG_DISCONNECT :: char where
  \<comment> \<open>Modelled from the spec: \<^verbatim>\<open>MSG_DISCONNECT (1)\<close>.\<close>
  "SSH2_MSG_DISCONNECT = CHR 0x01"

definition SSH2_MSG_NEWKEYS :: char where
  \<comment> \<open>Modelled from the spec: \<^verbatim>\<open>MSG_NEWKEYS (21)\<close>.\<close>
  "SSH2_MSG_NEWKEYS = CHR 0x15"

definition SSH2_MSG_KEXDH_INIT :: char where
  \<comment> \<open>Modelled from the spec: \<^verbatim>\<open>MSG_KEXDH_INIT (30)\<close>.\<close>
  "SSH2_MSG_KEXDH_INIT = CHR 0x1E"

definition SSH2_DISCONNECT_BY_APPLICATION :: nat where
  \<comment> \<open>Modelled from the spec: reason \<^verbatim>\<open>BY_APPLICATION = 11\<close>.\<close>
  "SSH2_DISCONNECT_BY_APPLICATION = 11"

abbreviation NUL :: char where "NUL \<equiv> CHR 0x00"
abbreviation LF :: char where "LF \<equiv> CHR 0x0A"
abbreviation CR :: char where "CR \<equiv> CHR 0x0D"

section \<open>Data model\<close>

text \<open>
  Modelled from the spec: the enumeration of session states is declared in the absent
  \<^verbatim>\<open>libssh/session.h\<close>; the spec lists these seven states.
\<close>

datatype ssh_session_state_e =
    SSH_SESSION_STATE_NONE
  | SSH_SESSION_STATE_CONNECTING
  | SSH_SESSION_STATE_SOCKET_CONNECTED
  | SSH_SESSION_STATE_BANNER_RECEIVED
  | SSH_SESSION_STATE_INITIAL_KEX
  | SSH_SESSION_STATE_AUTHENTICATING
  | SSH_SESSION_STATE_ERROR

datatype ssh_dh_state_e =
    DH_STATE_INIT
  | DH_STATE_INIT_TO_SEND
  | DH_STATE_INIT_SENT
  | DH_STATE_NEWKEYS_TO_SEND
  | DH_STATE_NEWKEYS_SENT
  | DH_STATE_FINISHED

text \<open>The messages handed to \<^verbatim>\<open>ssh_set_error\<close>, one constructor for each call in the source.\<close>

datatype ssh_error =
    Connection_failed int
  | Socket_error int
  | Banner_too_large
  | Protocol_mismatch string
  | No_version_usable string
  | No_public_key
  | No_F_number
  | Cannot_import_f
  | No_signature
  | Cannot_build_k
  | Invalid_dh_state ssh_dh_state_e
  | Invalid_state ssh_session_state_e
  | Hostname_required
  | Invalid_session_pointer

text \<open>The function stored in \<^verbatim>\<open>session->socket_callbacks.data\<close>.\<close>

datatype data_callback =
    No_data_callback
  | Callback_receive_banner
  | Ssh_packet_socket_callback

text \<open>
  Modelled from the spec: the crypto context is declared in the absent \<^verbatim>\<open>libssh/crypto.h\<close>.
  Of its contents the model keeps whether \<^verbatim>\<open>crypt_set_algorithms\<close> has bound the
  cipher and MAC choices and whether \<^verbatim>\<open>generate_session_keys\<close> has derived the keys.
\<close>

record crypto_ctx =
  algorithms_bound :: bool
  keys_derived :: bool

text \<open>
  The heap objects the session points to: \<^verbatim>\<open>ssh_string\<close> values and crypto contexts. An
  address is an index into the list of cells; allocation appends a cell, and releasing a
  cell clears its \<open>live\<close> flag, so that an address is never handed out twice.
\<close>

datatype obj = Str string | Crypto crypto_ctx

record cell =
  content :: obj
  live :: bool

record ssh_session_struct =
  session_state :: ssh_session_state_e
  dh_handshake_state :: ssh_dh_state_e
  serverbanner :: "string option"
  clientbanner :: "string option"
  xbanner :: "string option"
  banner :: "nat option"
  version :: int
  ssh1 :: int
  ssh2 :: int
  openssh :: int
  alive :: int
  client :: int
  connected :: int
  fd :: int
  host :: "string option"
  current_crypto :: "nat option"
  next_crypto :: "nat option"
  dh_server_signature :: "nat option"
  out_buffer :: string
  sent_packets :: "string list"
  socket_open :: bool
  socket_in :: string
  socket_out :: string
  socket_callbacks_data :: data_callback
  connect_status_function :: bool
  status_log :: "nat list"
  last_error :: "ssh_error option"
  heap :: "cell list"

text \<open>
  The macro \<^verbatim>\<open>set_status\<close>: the status callback, when one is installed, is called with the
  progress value. The model records the values in \<open>status_log\<close>, in hundredths
  (\<^verbatim>\<open>0.2\<close> is 20).
\<close>

definition set_status :: "nat \<Rightarrow> ssh_session_struct \<Rightarrow> ssh_session_struct" where
  "set_status status s =
     (if connect_status_function s then s\<lparr>status_log := status_log s @ [status]\<rparr> else s)"

definition ssh_set_error :: "ssh_error \<Rightarrow> ssh_session_struct \<Rightarrow> ssh_session_struct" where
  "ssh_set_error err s = s\<lparr>last_error := Some err\<rparr>"

subsection \<open>Strings and crypto contexts on the heap\<close>

definition heap_alloc :: "obj \<Rightarrow> ssh_session_struct \<Rightarrow> ssh_session_struct" where
  \<comment> \<open>the new object has the address \<open>length (heap s)\<close>\<close>
  "heap_alloc ob s = s\<lparr>heap := heap s @ [\<lparr>content = ob, live = True\<rparr>]\<rparr>"

definition string_burn :: "nat \<Rightarrow> ssh_session_struct \<Rightarrow> ssh_session_struct" where
  \<comment> \<open>Modelled from the spec: \<^verbatim>\<open>string_burn\<close> (absent) overwrites the bytes with zeros.\<close>
  "string_burn p s =
     (if p < length (heap s) then
        (case content (heap s ! p) of
           Str bs \<Rightarrow> s\<lparr>heap := (heap s)[p := (heap s ! p)\<lparr>content := Str (replicate (length bs) NUL)\<rparr>]\<rparr>
         | Crypto c \<Rightarrow> s)
      else s)"

definition string_free :: "nat \<Rightarrow> ssh_session_struct \<Rightarrow> ssh_session_struct" where
  \<comment> \<open>Modelled from the spec: \<^verbatim>\<open>string_free\<close> (absent) releases the string.\<close>
  "string_free p s =
     (if p < length (heap s) then s\<lparr>heap := (heap s)[p := (heap s ! p)\<lparr>live := False\<rparr>]\<rparr> else s)"

definition crypto_empty :: crypto_ctx where
  "crypto_empty = \<lparr>algorithms_bound = False, keys_derived = False\<rparr>"

definition crypto_free :: "nat \<Rightarrow> ssh_session_struct \<Rightarrow> ssh_session_struct" where
  \<comment> \<open>Modelled from the spec: \<^verbatim>\<open>crypto_free\<close> (absent) is the "zero-wiping release".\<close>
  "crypto_free p s =
     (if p < length (heap s) then
        s\<lparr>heap := (heap s)[p := \<lparr>content =
             (case content (heap s ! p) of Str bs \<Rightarrow> Str bs | Crypto c \<Rightarrow> Crypto crypto_empty),
             live = False\<rparr>]\<rparr>
      else s)"

definition crypt_set_algorithms :: "ssh_session_struct \<Rightarrow> ssh_session_struct" where
  \<comment> \<open>Modelled from the spec: "binds cipher/MAC choices from the negotiator to \<^verbatim>\<open>next_crypto\<close>".\<close>
  "crypt_set_algorithms s =
     (case next_crypto s of
        None \<Rightarrow> s
      | Some p \<Rightarrow>
          if p < length (heap s) then
            (case content (heap s ! p) of
               Crypto c \<Rightarrow> s\<lparr>heap := (heap s)[p := (heap s ! p)\<lparr>content := Crypto (c\<lparr>algorithms_bound := True\<rparr>)\<rparr>]\<rparr>
             | Str bs \<Rightarrow> s)
          else s)"

definition generate_session_keys :: "ssh_session_struct \<Rightarrow> ssh_session_struct" where
  \<comment> \<open>Modelled from the spec: "derives encryption, integrity, and IV material for both
      directions"; the keys belong to \<^verbatim>\<open>next_crypto\<close>.\<close>
  "generate_session_keys s =
     (case next_crypto s of
        None \<Rightarrow> s
      | Some p \<Rightarrow>
          if p < length (heap s) then
            (case content (heap s ! p) of
               Crypto c \<Rightarrow> s\<lparr>heap := (heap s)[p := (heap s ! p)\<lparr>content := Crypto (c\<lparr>keys_derived := True\<rparr>)\<rparr>]\<rparr>
             | Str bs \<Rightarrow> s)
          else s)"


subsection \<open>Buffers and packets\<close>

definition u32_be :: "nat \<Rightarrow> string" where
  "u32_be n = [char_of (n div 16777216), char_of (n div 65536), char_of (n div 256), char_of n]"

definition ssh_string_wire :: "string \<Rightarrow> string" where
  \<comment> \<open>an \<^verbatim>\<open>ssh_string\<close> in a buffer: the length as a big-endian \<^verbatim>\<open>u32\<close>, then the bytes\<close>
  "ssh_string_wire bs = u32_be (length bs) @ bs"

definition buffer_add :: "string \<Rightarrow> ssh_session_struct \<Rightarrow> ssh_session_struct" where
  "buffer_add bs s = s\<lparr>out_buffer := out_buffer s @ bs\<rparr>"

definition packet_send :: "ssh_session_struct \<Rightarrow> ssh_session_struct" where
  \<comment> \<open>Modelled from the spec: \<^verbatim>\<open>packet_send\<close> (absent) enqueues the contents of the
      out buffer as one packet and leaves the buffer empty.\<close>
  "packet_send s = s\<lparr>sent_packets := sent_packets s @ [out_buffer s], out_buffer := []\<rparr>"

section \<open>The Diffie-Hellman handshake\<close>

text \<open>
  The functions that \<^verbatim>\<open>dh_handshake\<close> calls live in files that are absent. What each of
  these calls returns during one run of \<^verbatim>\<open>dh_handshake\<close> is a parameter of the model,
  one field for each call in the source, in the order of the source. A call that returns
  a string returns \<open>None\<close> for \<^verbatim>\<open>NULL\<close>, and otherwise the bytes of a newly allocated
  string. Apart from the effects written out below, the absent functions are taken to
  leave the fields of the session and the heap cells alone.
\<close>

record dh_ext =
  buffer_add_u8_kexdh_init_rc :: int
  dh_generate_x_rc :: int
  dh_generate_e_rc :: int
  dh_get_e_res :: "string option"
  buffer_add_ssh_string_e_rc :: int
  packet_send_kexdh_init_rc :: int
  packet_flush_kexdh_init_rc :: int
  packet_wait_kexdh_reply_rc :: int
  buffer_get_pubkey_res :: "string option"
  buffer_get_f_res :: "string option"
  dh_import_f_rc :: int
  buffer_get_signature_res :: "string option"
  dh_build_k_rc :: int
  buffer_add_u8_newkeys_rc :: int
  packet_send_newkeys_rc :: int
  packet_flush_newkeys_rc :: int
  packet_wait_newkeys_rc :: int
  make_sessionid_rc :: int
  crypt_set_algorithms_rc :: int
  generate_session_keys_rc :: int
  signature_verify_rc :: int
  crypto_new_ok :: bool

text \<open>The local variables of \<^verbatim>\<open>dh_handshake\<close>.\<close>

record dh_locals =
  l_e :: "nat option"
  l_f :: "nat option"
  l_pubkey :: "nat option"
  l_signature :: "nat option"
  l_rc :: int

definition dh_locals_init :: dh_locals where
  "dh_locals_init = \<lparr>l_e = None, l_f = None, l_pubkey = None, l_signature = None, l_rc = SSH_ERROR\<rparr>"

definition burn_and_free :: "nat option \<Rightarrow> ssh_session_struct \<Rightarrow> ssh_session_struct" where
  \<comment> \<open>\<^verbatim>\<open>string_burn(p); string_free(p);\<close> where both do nothing for \<^verbatim>\<open>NULL\<close>\<close>
  "burn_and_free q s = (case q of None \<Rightarrow> s | Some p \<Rightarrow> string_free p (string_burn p s))"

definition dh_error :: "dh_locals \<Rightarrow> ssh_session_struct \<Rightarrow> int \<times> ssh_session_struct" where
  \<comment> \<open>the label \<^verbatim>\<open>error:\<close>\<close>
  "dh_error L s =
     (l_rc L,
      burn_and_free (l_signature L) (burn_and_free (l_pubkey L)
        (burn_and_free (l_f L) (burn_and_free (l_e L) s))))"

definition dh_newkeys_sent ::
  "dh_ext \<Rightarrow> dh_locals \<Rightarrow> ssh_session_struct \<Rightarrow> int \<times> ssh_session_struct" where
  \<comment> \<open>\<^verbatim>\<open>case DH_STATE_NEWKEYS_SENT:\<close>\<close>
  "dh_newkeys_sent x L s =
     (if packet_wait_newkeys_rc x \<noteq> SSH_OK then
        dh_error (L\<lparr>l_rc := packet_wait_newkeys_rc x\<rparr>) s
      else if make_sessionid_rc x \<noteq> SSH_OK then
        dh_error (L\<lparr>l_rc := make_sessionid_rc x\<rparr>) s
      else if crypt_set_algorithms_rc x \<noteq> 0 then
        dh_error (L\<lparr>l_rc := SSH_ERROR\<rparr>) s
      else if generate_session_keys_rc x < 0 then
        dh_error (L\<lparr>l_rc := SSH_ERROR\<rparr>) (crypt_set_algorithms s)
      else
        let s1 = generate_session_keys (crypt_set_algorithms s);
            signature = dh_server_signature s1;
            s2 = s1\<lparr>dh_server_signature := None\<rparr>
        in
          if signature_verify_rc x \<noteq> 0 then
            dh_error (L\<lparr>l_signature := signature, l_rc := SSH_ERROR\<rparr>) s2
          else
            let s3 = burn_and_free signature s2;
                s4 = (case current_crypto s3 of
                        None \<Rightarrow> s3
                      | Some p \<Rightarrow> (crypto_free p s3)\<lparr>current_crypto := None\<rparr>);
                s5 = s4\<lparr>current_crypto := next_crypto s4\<rparr>
            in
              if crypto_new_ok x then
                (SSH_OK,
                 (heap_alloc (Crypto crypto_empty) s5)
                   \<lparr>next_crypto := Some (length (heap s5)),
                    dh_handshake_state := DH_STATE_FINISHED\<rparr>)
              else
                dh_error (L\<lparr>l_signature := None, l_rc := SSH_ERROR\<rparr>) (s5\<lparr>next_crypto := None\<rparr>))"

definition dh_newkeys_to_send ::
  "dh_ext \<Rightarrow> dh_locals \<Rightarrow> ssh_session_struct \<Rightarrow> int \<times> ssh_session_struct" where
  \<comment> \<open>\<^verbatim>\<open>case DH_STATE_NEWKEYS_TO_SEND:\<close>, falling through\<close>
  "dh_newkeys_to_send x L s =
     (if packet_flush_newkeys_rc x \<noteq> SSH_OK then
        dh_error (L\<lparr>l_rc := packet_flush_newkeys_rc x\<rparr>) s
      else
        dh_newkeys_sent x (L\<lparr>l_rc := packet_flush_newkeys_rc x\<rparr>)
          (s\<lparr>dh_handshake_state := DH_STATE_NEWKEYS_SENT\<rparr>))"

definition dh_init_sent ::
  "dh_ext \<Rightarrow> dh_locals \<Rightarrow> ssh_session_struct \<Rightarrow> int \<times> ssh_session_struct" where
  \<comment> \<open>\<^verbatim>\<open>case DH_STATE_INIT_SENT:\<close>, falling through\<close>
  "dh_init_sent x L s =
     (if packet_wait_kexdh_reply_rc x \<noteq> SSH_OK then
        dh_error (L\<lparr>l_rc := packet_wait_kexdh_reply_rc x\<rparr>) s
      else
        (case buffer_get_pubkey_res x of
           None \<Rightarrow> dh_error (L\<lparr>l_rc := SSH_ERROR\<rparr>) (ssh_set_error No_public_key s)
         | Some pk \<Rightarrow>
             let L1 = L\<lparr>l_pubkey := Some (length (heap s)), l_rc := packet_wait_kexdh_reply_rc x\<rparr>;
                 s1 = heap_alloc (Str pk) s
             in
               (case buffer_get_f_res x of
                  None \<Rightarrow> dh_error (L1\<lparr>l_rc := SSH_ERROR\<rparr>) (ssh_set_error No_F_number s1)
                | Some fb \<Rightarrow>
                    let L2 = L1\<lparr>l_f := Some (length (heap s1))\<rparr>;
                        s2 = heap_alloc (Str fb) s1
                    in
                      if dh_import_f_rc x < 0 then
                        dh_error (L2\<lparr>l_rc := SSH_ERROR\<rparr>) (ssh_set_error Cannot_import_f s2)
                      else
                        let s3 = burn_and_free (l_f L2) s2;
                            L3 = L2\<lparr>l_f := None\<rparr>
                        in
                          (case buffer_get_signature_res x of
                             None \<Rightarrow> dh_error (L3\<lparr>l_rc := SSH_ERROR\<rparr>) (ssh_set_error No_signature s3)
                           | Some sg \<Rightarrow>
                               let L4 = L3\<lparr>l_signature := Some (length (heap s3))\<rparr>;
                                   s4 = (heap_alloc (Str sg) s3)\<lparr>dh_server_signature := Some (length (heap s3))\<rparr>
                               in
                                 if dh_build_k_rc x < 0 then
                                   dh_error (L4\<lparr>l_rc := SSH_ERROR\<rparr>) (ssh_set_error Cannot_build_k s4)
                                 else if buffer_add_u8_newkeys_rc x < 0 then
                                   dh_error (L4\<lparr>l_rc := SSH_ERROR\<rparr>) s4
                                 else if packet_send_newkeys_rc x = SSH_ERROR then
                                   dh_error (L4\<lparr>l_rc := packet_send_newkeys_rc x\<rparr>)
                                     (buffer_add [SSH2_MSG_NEWKEYS] s4)
                                 else
                                   dh_newkeys_to_send x (L4\<lparr>l_rc := packet_send_newkeys_rc x\<rparr>)
                                     ((packet_send (buffer_add [SSH2_MSG_NEWKEYS] s4))
                                        \<lparr>dh_handshake_state := DH_STATE_NEWKEYS_TO_SEND\<rparr>)))))"

definition dh_init_to_send ::
  "dh_ext \<Rightarrow> dh_locals \<Rightarrow> ssh_session_struct \<Rightarrow> int \<times> ssh_session_struct" where
  \<comment> \<open>\<^verbatim>\<open>case DH_STATE_INIT_TO_SEND:\<close>, falling through\<close>
  "dh_init_to_send x L s =
     (if packet_flush_kexdh_init_rc x \<noteq> SSH_OK then
        dh_error (L\<lparr>l_rc := packet_flush_kexdh_init_rc x\<rparr>) s
      else
        dh_init_sent x (L\<lparr>l_rc := packet_flush_kexdh_init_rc x\<rparr>)
          (s\<lparr>dh_handshake_state := DH_STATE_INIT_SENT\<rparr>))"

definition dh_init ::
  "dh_ext \<Rightarrow> dh_locals \<Rightarrow> ssh_session_struct \<Rightarrow> int \<times> ssh_session_struct" where
  \<comment> \<open>\<^verbatim>\<open>case DH_STATE_INIT:\<close>, falling through\<close>
  "dh_init x L s =
     (if buffer_add_u8_kexdh_init_rc x < 0 then dh_error L s
      else
        let s1 = buffer_add [SSH2_MSG_KEXDH_INIT] s in
          if dh_generate_x_rc x < 0 then dh_error L s1
          else if dh_generate_e_rc x < 0 then dh_error L s1
          else
            (case dh_get_e_res x of
               None \<Rightarrow> dh_error L s1
             | Some eb \<Rightarrow>
                 let L1 = L\<lparr>l_e := Some (length (heap s1))\<rparr>;
                     s2 = heap_alloc (Str eb) s1
                 in
                   if buffer_add_ssh_string_e_rc x < 0 then dh_error L1 s2
                   else
                     let s3 = burn_and_free (l_e L1) (buffer_add (ssh_string_wire eb) s2);
                         L2 = L1\<lparr>l_e := None, l_rc := packet_send_kexdh_init_rc x\<rparr>
                     in
                       if packet_send_kexdh_init_rc x = SSH_ERROR then dh_error L2 s3
                       else
                         dh_init_to_send x L2
                           ((packet_send s3)\<lparr>dh_handshake_state := DH_STATE_INIT_TO_SEND\<rparr>)))"

definition dh_handshake :: "dh_ext \<Rightarrow> ssh_session_struct \<Rightarrow> int \<times> ssh_session_struct" where
  "dh_handshake x s =
     (case dh_handshake_state s of
        DH_STATE_INIT \<Rightarrow> dh_init x dh_locals_init s
      | DH_STATE_INIT_TO_SEND \<Rightarrow> dh_init_to_send x dh_locals_init s
      | DH_STATE_INIT_SENT \<Rightarrow> dh_init_sent x dh_locals_init s
      | DH_STATE_NEWKEYS_TO_SEND \<Rightarrow> dh_newkeys_to_send x dh_locals_init s
      | DH_STATE_NEWKEYS_SENT \<Rightarrow> dh_newkeys_sent x dh_locals_init s
      | DH_STATE_FINISHED \<Rightarrow>
          (SSH_ERROR, ssh_set_error (Invalid_dh_state (dh_handshake_state s)) s))"


section \<open>C strings\<close>

text \<open>
  A C string is read from a memory image, a list of bytes, and ends before the first
  \<open>NUL\<close>. A read behind the image gives \<open>NUL\<close>.
\<close>

definition c_str :: "string \<Rightarrow> string" where
  "c_str m = takeWhile (\<lambda>c. c \<noteq> NUL) m"

definition c_read :: "string \<Rightarrow> nat \<Rightarrow> char" where
  "c_read m i = (if i < length m then m ! i else NUL)"

fun strstr :: "string \<Rightarrow> string \<Rightarrow> nat option" where
  \<comment> \<open>the offset of the first occurrence of the needle\<close>
  "strstr [] needle = (if needle = [] then Some 0 else None)"
| "strstr (c # cs) needle =
     (if take (length needle) (c # cs) = needle then Some 0
      else map_option Suc (strstr cs needle))"

definition isspace :: "char \<Rightarrow> bool" where
  "isspace c = (c = CHR '' '' \<or> c = CHR 0x09 \<or> c = LF \<or> c = CHR 0x0B \<or> c = CHR 0x0C \<or> c = CR)"

definition isdigit :: "char \<Rightarrow> bool" where
  "isdigit c = (48 \<le> (of_char c :: nat) \<and> (of_char c :: nat) \<le> 57)"

fun digits_value :: "nat \<Rightarrow> string \<Rightarrow> nat" where
  "digits_value acc [] = acc"
| "digits_value acc (c # cs) =
     (if isdigit c then digits_value (acc * 10 + (of_char c - 48)) cs else acc)"

definition strtol :: "string \<Rightarrow> int" where
  \<comment> \<open>\<^verbatim>\<open>strtol(p, NULL, 10)\<close> on the memory from \<open>p\<close> on: white space, an optional
      sign, then the longest run of decimal digits (0 when there is none); a value out of
      the range of \<^verbatim>\<open>long\<close>, taken to have 64 bits, becomes the nearest bound.\<close>
  "strtol m =
     (let m1 = dropWhile isspace m in
        (case m1 of
           [] \<Rightarrow> 0
         | c # cs \<Rightarrow>
             if c = CHR ''-'' then max (- (2 ^ 63)) (- int (digits_value 0 cs))
             else if c = CHR ''+'' then min (2 ^ 63 - 1) (int (digits_value 0 cs))
             else min (2 ^ 63 - 1) (int (digits_value 0 m1))))"

definition long_to_int :: "int \<Rightarrow> int" where
  \<comment> \<open>the assignment of a \<^verbatim>\<open>long\<close> to an \<^verbatim>\<open>int\<close> of 32 bits\<close>
  "long_to_int v = sint (word_of_int v :: 32 word)"

definition SSH_VERSION_INT :: "int \<Rightarrow> int \<Rightarrow> int \<Rightarrow> int" where
  \<comment> \<open>Modelled from the spec: the macro (absent) is \<^verbatim>\<open>(major<<16)|(minor<<8)|patch\<close>;
      here on \<^verbatim>\<open>int\<close> values of 32 bits, a shift out of range wrapping around.\<close>
  "SSH_VERSION_INT a b c =
     sint ((push_bit 16 (word_of_int a) OR push_bit 8 (word_of_int b) OR word_of_int c) :: 32 word)"

section \<open>The banner and the connection\<close>

text \<open>
  What the absent functions return during one run of \<^verbatim>\<open>connection_callback\<close>, and the
  constants and unspecified values it reads: the two client banners of the absent
  \<^verbatim>\<open>priv.h\<close>, the bytes that lie in memory behind the terminator of the duplicated
  server banner (\<^verbatim>\<open>ssh_analyze_banner\<close> can read there), and the values of the
  uninitialised variables \<^verbatim>\<open>ssh1\<close> and \<^verbatim>\<open>ssh2\<close>.
\<close>

record conn_ext =
  CLIENTBANNER1 :: string
  CLIENTBANNER2 :: string
  strdup_serverbanner_ok :: bool
  banner_stray :: string
  ssh1_uninit :: int
  ssh2_uninit :: int
  strdup_banner_ok :: bool
  ssh_socket_write_rc :: int
  ssh_socket_blocking_flush_rc :: int
  set_kex_rc :: int
  ssh_send_kex_rc :: int
  ssh_get_kex1_rc :: int
  dh :: dh_ext

definition openssh_version :: "string \<Rightarrow> ssh_session_struct \<Rightarrow> ssh_session_struct" where
  \<comment> \<open>the end of \<^verbatim>\<open>ssh_analyze_banner\<close>, from \<^verbatim>\<open>strstr\<close> on\<close>
  "openssh_version m s =
     (case strstr (c_str m) ''OpenSSH'' of
        None \<Rightarrow> s
      | Some k \<Rightarrow>
          let major = long_to_int (strtol (drop (k + 8) m));
              minor = long_to_int (strtol (drop (k + 10) m))
          in s\<lparr>openssh := SSH_VERSION_INT major minor 0\<rparr>)"

definition ssh_analyze_banner ::
  "string \<Rightarrow> string \<Rightarrow> int \<Rightarrow> int \<Rightarrow> ssh_session_struct \<Rightarrow> int \<times> int \<times> int \<times> ssh_session_struct" where
  \<comment> \<open>\<open>bnr\<close> is \<^verbatim>\<open>session->serverbanner\<close>, which the caller has found not to be
      \<^verbatim>\<open>NULL\<close>; \<open>a\<close> and \<open>b\<close> are the values of \<^verbatim>\<open>*ssh1\<close> and \<^verbatim>\<open>*ssh2\<close> at the
      call; the result is the return value with \<^verbatim>\<open>*ssh1\<close> and \<^verbatim>\<open>*ssh2\<close>\<close>
  "ssh_analyze_banner stray bnr a b s =
     (let m = bnr @ NUL # stray in
        if take 4 (c_str m) \<noteq> ''SSH-'' then
          (- 1, a, b, ssh_set_error (Protocol_mismatch (c_str m)) s)
        else if c_read m 4 = CHR ''1'' then
          (0, 1, (if c_read m 6 = CHR ''9'' then 1 else 0), openssh_version m s)
        else if c_read m 4 = CHR ''2'' then
          (0, 0, 1, openssh_version m s)
        else
          (- 1, a, b, ssh_set_error (Protocol_mismatch (c_str m)) s))"

definition ssh_socket_write :: "string \<Rightarrow> ssh_session_struct \<Rightarrow> ssh_session_struct" where
  "ssh_socket_write bs s = s\<lparr>socket_out := socket_out s @ bs\<rparr>"

definition ssh_socket_close :: "ssh_session_struct \<Rightarrow> ssh_session_struct" where
  "ssh_socket_close s = s\<lparr>socket_open := False\<rparr>"

definition ssh_send_banner :: "conn_ext \<Rightarrow> int \<Rightarrow> ssh_session_struct \<Rightarrow> int \<times> ssh_session_struct" where
  \<comment> \<open>\<^verbatim>\<open>snprintf(buffer, 128, ...)\<close> keeps at most 127 bytes of the banner and its
      line end\<close>
  "ssh_send_banner x server s =
     (let bnr = c_str (case xbanner s of
                            Some xb \<Rightarrow> xb
                          | None \<Rightarrow> if version s = 1 then CLIENTBANNER1 x else CLIENTBANNER2 x);
          copy = (if strdup_banner_ok x then Some bnr else None);
          s1 = (if server \<noteq> 0 then s\<lparr>serverbanner := copy\<rparr> else s\<lparr>clientbanner := copy\<rparr>);
          buffer = take 127 (bnr @ [CR, LF])
      in
        if copy = None then (- 1, s1)
        else if ssh_socket_write_rc x = SSH_ERROR then (- 1, s1)
        else if ssh_socket_blocking_flush_rc x \<noteq> SSH_OK then (- 1, ssh_socket_write buffer s1)
        else (0, ssh_socket_write buffer s1))"

definition connection_error :: "ssh_session_struct \<Rightarrow> ssh_session_struct" where
  \<comment> \<open>the label \<^verbatim>\<open>error:\<close> of \<^verbatim>\<open>connection_callback\<close>\<close>
  "connection_error s = (ssh_socket_close s)\<lparr>alive := 0, session_state := SSH_SESSION_STATE_ERROR\<rparr>"

definition connection_version_chosen :: "conn_ext \<Rightarrow> ssh_session_struct \<Rightarrow> ssh_session_struct" where
  \<comment> \<open>the rest of \<^verbatim>\<open>case SSH_SESSION_STATE_BANNER_RECEIVED:\<close> once the version is set;
      the result of \<^verbatim>\<open>ssh_send_banner\<close> is not looked at\<close>
  "connection_version_chosen x s =
     (set_status 50 (snd (ssh_send_banner x 0 (s\<lparr>socket_callbacks_data := Ssh_packet_socket_callback\<rparr>))))
       \<lparr>session_state := SSH_SESSION_STATE_INITIAL_KEX\<rparr>"

definition connection_banner_received :: "conn_ext \<Rightarrow> ssh_session_struct \<Rightarrow> ssh_session_struct" where
  \<comment> \<open>\<^verbatim>\<open>case SSH_SESSION_STATE_BANNER_RECEIVED:\<close>\<close>
  "connection_banner_received x s =
     (case serverbanner s of
        None \<Rightarrow> connection_error s
      | Some bnr \<Rightarrow>
          (case ssh_analyze_banner (banner_stray x) bnr (ssh1_uninit x) (ssh2_uninit x)
                  (set_status 40 s) of
             (rc, ssh1_v, ssh2_v, s1) \<Rightarrow>
               if rc < 0 then connection_error s1
               else if ssh2_v \<noteq> 0 \<and> ssh2 s1 \<noteq> 0 then
                 connection_version_chosen x (s1\<lparr>version := 2\<rparr>)
               else if ssh1_v \<noteq> 0 \<and> ssh1 s1 \<noteq> 0 then
                 connection_version_chosen x (s1\<lparr>version := 1\<rparr>)
               else
                 connection_error (ssh_set_error (No_version_usable (c_str bnr)) s1)))"

definition connection_initial_kex :: "conn_ext \<Rightarrow> ssh_session_struct \<Rightarrow> ssh_session_struct" where
  \<comment> \<open>\<^verbatim>\<open>case SSH_SESSION_STATE_INITIAL_KEX:\<close>\<close>
  "connection_initial_kex x s =
     (if version s = 2 then
        (if set_kex_rc x < 0 then connection_error (set_status 60 s)
         else if ssh_send_kex_rc x < 0 then connection_error (set_status 60 s)
         else
           (case dh_handshake (dh x) (set_status 80 (set_status 60 s)) of
              (rc, s1) \<Rightarrow>
                if rc < 0 then connection_error s1
                else (set_status 100 s1)
                       \<lparr>connected := 1, session_state := SSH_SESSION_STATE_AUTHENTICATING\<rparr>))
      else if version s = 1 then
        (if ssh_get_kex1_rc x < 0 then connection_error s
         else (set_status 60 s)
                \<lparr>connected := 1, session_state := SSH_SESSION_STATE_AUTHENTICATING\<rparr>)
      else s\<lparr>session_state := SSH_SESSION_STATE_AUTHENTICATING\<rparr>)"

definition connection_callback :: "conn_ext \<Rightarrow> ssh_session_struct \<Rightarrow> ssh_session_struct" where
  "connection_callback x s =
     (case session_state s of
        SSH_SESSION_STATE_NONE \<Rightarrow> s
      | SSH_SESSION_STATE_CONNECTING \<Rightarrow> s
      | SSH_SESSION_STATE_SOCKET_CONNECTED \<Rightarrow> s
      | SSH_SESSION_STATE_BANNER_RECEIVED \<Rightarrow> connection_banner_received x s
      | SSH_SESSION_STATE_INITIAL_KEX \<Rightarrow> connection_initial_kex x s
      | SSH_SESSION_STATE_AUTHENTICATING \<Rightarrow> s
      | SSH_SESSION_STATE_ERROR \<Rightarrow> ssh_set_error (Invalid_state (session_state s)) s)"


section \<open>The socket callbacks\<close>

text \<open>
  The codes handed to the callback \<^verbatim>\<open>connected\<close>: the doc comment of the source names
  \<^verbatim>\<open>SSH_SOCKET_CONNECTED_OK\<close> and \<^verbatim>\<open>SSH_SOCKET_CONNECTED_ERROR\<close>; their values are in
  the absent \<^verbatim>\<open>socket.h\<close>.
\<close>

datatype socket_code =
    SSH_SOCKET_CONNECTED_OK
  | SSH_SOCKET_CONNECTED_ERROR
  | Socket_code_other int

definition socket_callback_connected ::
  "conn_ext \<Rightarrow> socket_code \<Rightarrow> int \<Rightarrow> ssh_session_struct \<Rightarrow> ssh_session_struct" where
  "socket_callback_connected x code errno s =
     connection_callback x
       (if code = SSH_SOCKET_CONNECTED_OK then
          s\<lparr>session_state := SSH_SESSION_STATE_SOCKET_CONNECTED\<rparr>
        else
          ssh_set_error (Connection_failed errno) (s\<lparr>session_state := SSH_SESSION_STATE_ERROR\<rparr>))"

definition socket_callback_exception ::
  "conn_ext \<Rightarrow> int \<Rightarrow> int \<Rightarrow> ssh_session_struct \<Rightarrow> ssh_session_struct" where
  "socket_callback_exception x code errno s =
     connection_callback x
       (ssh_set_error (Socket_error errno) (s\<lparr>session_state := SSH_SESSION_STATE_ERROR\<rparr>))"

text \<open>
  The loop of \<^verbatim>\<open>callback_receive_banner\<close>, from the index \<open>i\<close> on. The result is the
  return value, the buffer (the callback writes into it) and the session.
\<close>

function banner_loop ::
  "conn_ext \<Rightarrow> nat \<Rightarrow> string \<Rightarrow> ssh_session_struct \<Rightarrow> int \<times> string \<times> ssh_session_struct" where
  "banner_loop x i buffer s =
     (if i < length buffer then
        (if (if buffer ! i = CR then buffer[i := NUL] else buffer) ! i = LF then
           (int i + 1,
            buffer[i := NUL],
            connection_callback x
              (s\<lparr>serverbanner :=
                    (if strdup_serverbanner_ok x then Some (c_str (buffer[i := NUL])) else None),
                 session_state := SSH_SESSION_STATE_BANNER_RECEIVED\<rparr>))
         else if i > 127 then
           (0,
            (if buffer ! i = CR then buffer[i := NUL] else buffer),
            ssh_set_error Banner_too_large (s\<lparr>session_state := SSH_SESSION_STATE_ERROR\<rparr>))
         else
           banner_loop x (i + 1) (if buffer ! i = CR then buffer[i := NUL] else buffer) s)
      else (0, buffer, s))"
  by pat_completeness auto
termination
  by (relation "measure (\<lambda>(x, i, buffer, s). length buffer - i)") auto

definition callback_receive_banner ::
  "conn_ext \<Rightarrow> string \<Rightarrow> ssh_session_struct \<Rightarrow> int \<times> string \<times> ssh_session_struct" where
  "callback_receive_banner x data s = banner_loop x 0 data s"

definition ssh_packet_socket_callback ::
  "conn_ext \<Rightarrow> string \<Rightarrow> ssh_session_struct \<Rightarrow> int \<times> string \<times> ssh_session_struct" where
  \<comment> \<open>Modelled from the spec: the packet dispatcher (absent) takes the data and
      \<^verbatim>\<open>connection_callback\<close> is "invoked after every socket event".\<close>
  "ssh_packet_socket_callback x data s = (int (length data), data, connection_callback x s)"

section \<open>Connecting\<close>

datatype socket_event =
    Connected socket_code int
  | Data string
  | Exception int int

definition ssh_handle_packets ::
  "socket_event \<times> conn_ext \<Rightarrow> ssh_session_struct \<Rightarrow> ssh_session_struct" where
  \<comment> \<open>Modelled from the spec: \<^verbatim>\<open>ssh_handle_packets\<close> (absent) "blocks until one socket
      event has been processed"; the socket hands the bytes it holds to the callback
      \<^verbatim>\<open>data\<close> and keeps those the callback has not consumed.\<close>
  "ssh_handle_packets ev s =
     (case fst ev of
        Connected code errno \<Rightarrow> socket_callback_connected (snd ev) code errno s
      | Exception code errno \<Rightarrow> socket_callback_exception (snd ev) code errno s
      | Data bytes \<Rightarrow>
          (case socket_callbacks_data s of
             No_data_callback \<Rightarrow> s\<lparr>socket_in := socket_in s @ bytes\<rparr>
           | Callback_receive_banner \<Rightarrow>
               (case callback_receive_banner (snd ev) (socket_in s @ bytes) s of
                  (n, buffer, s1) \<Rightarrow> s1\<lparr>socket_in := drop (nat n) buffer\<rparr>)
           | Ssh_packet_socket_callback \<Rightarrow>
               (case ssh_packet_socket_callback (snd ev) (socket_in s @ bytes) s of
                  (n, buffer, s1) \<Rightarrow> s1\<lparr>socket_in := drop (nat n) buffer\<rparr>)))"

text \<open>
  The loop of \<^verbatim>\<open>ssh_connect\<close>. The socket events that arrive are a parameter; when the
  session is in neither of the two final states and no event is left, the call of
  \<^verbatim>\<open>ssh_handle_packets\<close> does not come back, and the result is \<open>None\<close>.
\<close>

fun drive_loop ::
  "(socket_event \<times> conn_ext) list \<Rightarrow> ssh_session_struct \<Rightarrow> ssh_session_struct option" where
  "drive_loop [] s =
     (if session_state s \<noteq> SSH_SESSION_STATE_ERROR \<and>
         session_state s \<noteq> SSH_SESSION_STATE_AUTHENTICATING
      then None else Some s)"
| "drive_loop (ev # evs) s =
     (if session_state s \<noteq> SSH_SESSION_STATE_ERROR \<and>
         session_state s \<noteq> SSH_SESSION_STATE_AUTHENTICATING
      then drive_loop evs (ssh_handle_packets ev s) else Some s)"

record connect_ext =
  ssh_init_rc :: int
  ssh_socket_connect_rc :: int

definition ssh_connect ::
  "connect_ext \<Rightarrow> (socket_event \<times> conn_ext) list \<Rightarrow> ssh_session_struct option \<Rightarrow>
     (int \<times> ssh_session_struct option) option" where
  \<comment> \<open>a session pointer is \<open>None\<close> for \<^verbatim>\<open>NULL\<close>; the result is \<open>None\<close> when the call
      does not return; \<^verbatim>\<open>ssh_socket_set_fd\<close> and a successful \<^verbatim>\<open>ssh_socket_connect\<close>
      (both absent) leave the socket open\<close>
  "ssh_connect cx evs session =
     (case session of
        None \<Rightarrow> Some (SSH_ERROR, None)
      | Some s0 \<Rightarrow>
          let s1 = s0\<lparr>alive := 0, client := 1\<rparr> in
            if ssh_init_rc cx < 0 then Some (SSH_ERROR, Some s1)
            else if fd s1 = - 1 \<and> host s1 = None then
              Some (SSH_ERROR, Some (ssh_set_error Hostname_required s1))
            else
              let s2 = s1\<lparr>session_state := SSH_SESSION_STATE_CONNECTING,
                          socket_callbacks_data := Callback_receive_banner\<rparr>;
                  ret = (if fd s2 \<noteq> - 1 then SSH_OK else ssh_socket_connect_rc cx)
              in
                if ret \<noteq> SSH_OK then Some (SSH_ERROR, Some s2)
                else
                  (case drive_loop evs ((set_status 20 (s2\<lparr>socket_open := True\<rparr>))\<lparr>alive := 1\<rparr>) of
                     None \<Rightarrow> None
                   | Some s3 \<Rightarrow> Some (0, Some s3)))"

section \<open>The accessors and the disconnection\<close>

definition ssh_get_issue_banner ::
  "bool \<Rightarrow> ssh_session_struct option \<Rightarrow> nat option \<times> ssh_session_struct option" where
  \<comment> \<open>the first argument tells whether \<^verbatim>\<open>string_to_char\<close> (absent) can allocate the
      copy; the result is the address of the copy\<close>
  "ssh_get_issue_banner string_to_char_ok session =
     (case session of
        None \<Rightarrow> (None, None)
      | Some s \<Rightarrow>
          (case banner s of
             None \<Rightarrow> (None, Some s)
           | Some p \<Rightarrow>
               if string_to_char_ok \<and> p < length (heap s) then
                 (Some (length (heap s)),
                  Some (heap_alloc (case content (heap s ! p) of Str bs \<Rightarrow> Str (c_str bs) | Crypto c \<Rightarrow> Str []) s))
               else (None, Some s)))"

definition ssh_get_openssh_version :: "ssh_session_struct option \<Rightarrow> int" where
  "ssh_get_openssh_version session = (case session of None \<Rightarrow> 0 | Some s \<Rightarrow> openssh s)"

record disconnect_ext =
  buffer_add_u8_disconnect_rc :: int
  buffer_add_u32_rc :: int
  string_from_char_ok :: bool
  buffer_add_ssh_string_rc :: int
  packet_send_disconnect_rc :: int

definition ssh_disconnect ::
  "disconnect_ext \<Rightarrow> ssh_session_struct option \<Rightarrow> ssh_session_struct option" where
  "ssh_disconnect x session =
     (case session of
        None \<Rightarrow> None
      | Some s \<Rightarrow>
          Some
            (if socket_open s then
               (if buffer_add_u8_disconnect_rc x < 0 then s
                else if buffer_add_u32_rc x < 0 then buffer_add [SSH2_MSG_DISCONNECT] s
                else if \<not> string_from_char_ok x then
                  buffer_add (u32_be SSH2_DISCONNECT_BY_APPLICATION) (buffer_add [SSH2_MSG_DISCONNECT] s)
                else
                  let s1 = heap_alloc (Str ''Bye Bye'')
                             (buffer_add (u32_be SSH2_DISCONNECT_BY_APPLICATION)
                                (buffer_add [SSH2_MSG_DISCONNECT] s));
                      str = length (heap s)
                  in
                    if buffer_add_ssh_string_rc x < 0 then string_free str s1
                    else
                      (ssh_socket_close
                         ((if packet_send_disconnect_rc x = SSH_ERROR then id else packet_send)
                            (string_free str (buffer_add (ssh_string_wire ''Bye Bye'') s1))))
                        \<lparr>alive := 0\<rparr>)
             else s\<lparr>alive := 0\<rparr>))"


section \<open>Example inputs\<close>

text \<open>A run of the handshake in which every call succeeds.\<close>

definition example_dh_ext :: dh_ext where
  "example_dh_ext =
     \<lparr>buffer_add_u8_kexdh_init_rc = 0, dh_generate_x_rc = 0, dh_generate_e_rc = 0,
      dh_get_e_res = Some [CHR 0x05, CHR 0x07], buffer_add_ssh_string_e_rc = 0,
      packet_send_kexdh_init_rc = 0, packet_flush_kexdh_init_rc = 0,
      packet_wait_kexdh_reply_rc = 0, buffer_get_pubkey_res = Some ''hostkey'',
      buffer_get_f_res = Some [CHR 0x0B, CHR 0x0D], dh_import_f_rc = 0,
      buffer_get_signature_res = Some ''sig'', dh_build_k_rc = 0,
      buffer_add_u8_newkeys_rc = 0, packet_send_newkeys_rc = 0, packet_flush_newkeys_rc = 0,
      packet_wait_newkeys_rc = 0, make_sessionid_rc = 0, crypt_set_algorithms_rc = 0,
      generate_session_keys_rc = 0, signature_verify_rc = 0, crypto_new_ok = True\<rparr>"

definition example_conn_ext :: conn_ext where
  "example_conn_ext =
     \<lparr>CLIENTBANNER1 = ''SSH-1.5-libssh'', CLIENTBANNER2 = ''SSH-2.0-libssh'',
      strdup_serverbanner_ok = True, banner_stray = [], ssh1_uninit = 0, ssh2_uninit = 0,
      strdup_banner_ok = True, ssh_socket_write_rc = 0, ssh_socket_blocking_flush_rc = 0,
      set_kex_rc = 0, ssh_send_kex_rc = 0, ssh_get_kex1_rc = 0, dh = example_dh_ext\<rparr>"

text \<open>
  A new session with a host name and no file descriptor, SSHv2 allowed and SSHv1 not, and
  an empty crypto context at address 0 for \<^verbatim>\<open>next_crypto\<close>.
\<close>

definition example_session :: ssh_session_struct where
  "example_session =
     \<lparr>session_state = SSH_SESSION_STATE_NONE, dh_handshake_state = DH_STATE_INIT,
      serverbanner = None, clientbanner = None, xbanner = None, banner = None,
      version = 0, ssh1 = 0, ssh2 = 1, openssh = 0, alive = 0, client = 0, connected = 0,
      fd = - 1, host = Some ''localhost'', current_crypto = None, next_crypto = Some 0,
      dh_server_signature = None, out_buffer = [], sent_packets = [], socket_open = False,
      socket_in = [], socket_out = [], socket_callbacks_data = No_data_callback,
      connect_status_function = True, status_log = [], last_error = None,
      heap = [\<lparr>content = Crypto crypto_empty, live = True\<rparr>]\<rparr>"

section \<open>Auxiliary notions\<close>

text \<open>
  The state after a handshake that has finished, seen from a state with \<open>n\<close> heap cells,
  the current crypto context \<open>cur\<close> and the next one \<open>nxt\<close>: the contexts have been
  swapped, the old current one is released and a new empty one is the next.
\<close>

definition swapped :: "nat \<Rightarrow> nat option \<Rightarrow> nat option \<Rightarrow> ssh_session_struct \<Rightarrow> bool" where
  "swapped n cur nxt s' =
     (dh_handshake_state s' = DH_STATE_FINISHED \<longrightarrow>
        current_crypto s' = nxt \<and>
        (\<forall>p. cur = Some p \<and> p < n \<longrightarrow> \<not> live (heap s' ! p)) \<and>
        (\<exists>q. next_crypto s' = Some q \<and> n \<le> q \<and> q < length (heap s') \<and>
             heap s' ! q = \<lparr>content = Crypto crypto_empty, live = True\<rparr>))"


text \<open>
  The version of OpenSSH in the words of the spec, to compare \<^verbatim>\<open>ssh_analyze_banner\<close>
  with: major and minor are the one-digit decimal fields at the offsets 8 and 10 from the
  substring \<^verbatim>\<open>OpenSSH\<close>, the version is \<^verbatim>\<open>(major<<16)|(minor<<8)\<close>, and it is 0
  for a banner without the substring.
\<close>

definition digit_field :: "char \<Rightarrow> int" where
  "digit_field c = (if isdigit c then int (of_char c - 48) else 0)"

definition openssh_one_digit_spec :: "string \<Rightarrow> int" where
  "openssh_one_digit_spec bnr =
     (case strstr bnr ''OpenSSH'' of
        None \<Rightarrow> 0
      | Some k \<Rightarrow>
          push_bit 16 (digit_field (c_read bnr (k + 8))) OR
          push_bit 8 (digit_field (c_read bnr (k + 10))))"

text \<open>Every call of one run of the handshake succeeds.\<close>

definition dh_all_ok :: "dh_ext \<Rightarrow> bool" where
  "dh_all_ok x =
     (\<not> buffer_add_u8_kexdh_init_rc x < 0 \<and> \<not> dh_generate_x_rc x < 0 \<and>
      \<not> dh_generate_e_rc x < 0 \<and> dh_get_e_res x \<noteq> None \<and>
      \<not> buffer_add_ssh_string_e_rc x < 0 \<and> packet_send_kexdh_init_rc x \<noteq> SSH_ERROR \<and>
      packet_flush_kexdh_init_rc x = SSH_OK \<and> packet_wait_kexdh_reply_rc x = SSH_OK \<and>
      buffer_get_pubkey_res x \<noteq> None \<and> buffer_get_f_res x \<noteq> None \<and>
      \<not> dh_import_f_rc x < 0 \<and> buffer_get_signature_res x \<noteq> None \<and>
      \<not> dh_build_k_rc x < 0 \<and> \<not> buffer_add_u8_newkeys_rc x < 0 \<and>
      packet_send_newkeys_rc x \<noteq> SSH_ERROR \<and> packet_flush_newkeys_rc x = SSH_OK \<and>
      packet_wait_newkeys_rc x = SSH_OK \<and> make_sessionid_rc x = SSH_OK \<and>
      crypt_set_algorithms_rc x = 0 \<and> \<not> generate_session_keys_rc x < 0 \<and>
      signature_verify_rc x = 0 \<and> crypto_new_ok x)"



text \<open>
  A session that exchanges keys again: it has a current crypto context at address 0 and
  the next one at address 1.
\<close>

definition example_rekey_session :: ssh_session_struct where
  "example_rekey_session =
     example_session
       \<lparr>current_crypto := Some 0, next_crypto := Some 1,
        heap := [\<lparr>content = Crypto \<lparr>algorithms_bound = True, keys_derived = True\<rparr>, live = True\<rparr>,
                 \<lparr>content = Crypto crypto_empty, live = True\<rparr>]\<rparr>"

text \<open>A session whose socket is connected and that waits for the banner of the server.\<close>

definition example_connected_session :: ssh_session_struct where
  "example_connected_session =
     example_session
       \<lparr>session_state := SSH_SESSION_STATE_SOCKET_CONNECTED, alive := 1, client := 1,
        socket_open := True, socket_callbacks_data := Callback_receive_banner\<rparr>"

text \<open>A session that has just received the banner of a server for SSHv1.99.\<close>

definition example_banner_session :: ssh_session_struct where
  "example_banner_session =
     example_session
       \<lparr>session_state := SSH_SESSION_STATE_BANNER_RECEIVED,
        serverbanner := Some ''SSH-1.99-OpenSSH_3.9p1'', alive := 1, client := 1,
        socket_open := True, socket_callbacks_data := Callback_receive_banner\<rparr>"

section \<open>Lemmas on the heap and the fields of the session\<close>

declare banner_loop.simps [simp del]

lemma nth_snoc_length: "length xs = n \<Longrightarrow> (xs @ [a]) ! n = a"
  by auto

lemma takeWhile_stop: "\<not> P y \<Longrightarrow> takeWhile P (xs @ y # ys) = takeWhile P xs"
  by (induction xs) simp_all

lemma c_str_cut:
  assumes "n < length b" "b ! n = NUL"
  shows "c_str b = c_str (take n b)"
proof -
  have "c_str b = c_str (take n b @ b ! n # drop (Suc n) b)"
    by (rule arg_cong [OF id_take_nth_drop [OF assms(1)]])
  also have "\<dots> = c_str (take n b)"
    unfolding c_str_def assms(2) by (rule takeWhile_stop) simp
  finally show ?thesis .
qed

lemma string_burn_fields [simp]:
  "serverbanner (string_burn p s) = serverbanner s"
  "current_crypto (string_burn p s) = current_crypto s"
  "next_crypto (string_burn p s) = next_crypto s"
  "dh_server_signature (string_burn p s) = dh_server_signature s"
  "session_state (string_burn p s) = session_state s"
  "dh_handshake_state (string_burn p s) = dh_handshake_state s"
  "length (heap (string_burn p s)) = length (heap s)"
  by (simp_all add: string_burn_def split: obj.splits)

lemma string_free_fields [simp]:
  "serverbanner (string_free p s) = serverbanner s"
  "current_crypto (string_free p s) = current_crypto s"
  "next_crypto (string_free p s) = next_crypto s"
  "dh_server_signature (string_free p s) = dh_server_signature s"
  "session_state (string_free p s) = session_state s"
  "dh_handshake_state (string_free p s) = dh_handshake_state s"
  "length (heap (string_free p s)) = length (heap s)"
  by (simp_all add: string_free_def)

lemma burn_and_free_fields [simp]:
  "serverbanner (burn_and_free q s) = serverbanner s"
  "current_crypto (burn_and_free q s) = current_crypto s"
  "next_crypto (burn_and_free q s) = next_crypto s"
  "dh_server_signature (burn_and_free q s) = dh_server_signature s"
  "session_state (burn_and_free q s) = session_state s"
  "dh_handshake_state (burn_and_free q s) = dh_handshake_state s"
  "length (heap (burn_and_free q s)) = length (heap s)"
  by (simp_all add: burn_and_free_def split: option.splits)

lemma crypto_free_fields [simp]:
  "serverbanner (crypto_free p s) = serverbanner s"
  "current_crypto (crypto_free p s) = current_crypto s"
  "next_crypto (crypto_free p s) = next_crypto s"
  "dh_server_signature (crypto_free p s) = dh_server_signature s"
  "session_state (crypto_free p s) = session_state s"
  "dh_handshake_state (crypto_free p s) = dh_handshake_state s"
  "length (heap (crypto_free p s)) = length (heap s)"
  by (simp_all add: crypto_free_def)

lemma crypt_set_algorithms_fields [simp]:
  "serverbanner (crypt_set_algorithms s) = serverbanner s"
  "current_crypto (crypt_set_algorithms s) = current_crypto s"
  "next_crypto (crypt_set_algorithms s) = next_crypto s"
  "dh_server_signature (crypt_set_algorithms s) = dh_server_signature s"
  "session_state (crypt_set_algorithms s) = session_state s"
  "dh_handshake_state (crypt_set_algorithms s) = dh_handshake_state s"
  "length (heap (crypt_set_algorithms s)) = length (heap s)"
  by (simp_all add: crypt_set_algorithms_def split: option.splits obj.splits)

lemma generate_session_keys_fields [simp]:
  "serverbanner (generate_session_keys s) = serverbanner s"
  "current_crypto (generate_session_keys s) = current_crypto s"
  "next_crypto (generate_session_keys s) = next_crypto s"
  "dh_server_signature (generate_session_keys s) = dh_server_signature s"
  "session_state (generate_session_keys s) = session_state s"
  "dh_handshake_state (generate_session_keys s) = dh_handshake_state s"
  "length (heap (generate_session_keys s)) = length (heap s)"
  by (simp_all add: generate_session_keys_def split: option.splits obj.splits)

lemma heap_alloc_fields [simp]:
  "serverbanner (heap_alloc ob s) = serverbanner s"
  "current_crypto (heap_alloc ob s) = current_crypto s"
  "next_crypto (heap_alloc ob s) = next_crypto s"
  "dh_server_signature (heap_alloc ob s) = dh_server_signature s"
  "session_state (heap_alloc ob s) = session_state s"
  "dh_handshake_state (heap_alloc ob s) = dh_handshake_state s"
  "length (heap (heap_alloc ob s)) = Suc (length (heap s))"
  by (simp_all add: heap_alloc_def)

lemma buffer_add_fields [simp]:
  "serverbanner (buffer_add bs s) = serverbanner s"
  "current_crypto (buffer_add bs s) = current_crypto s"
  "next_crypto (buffer_add bs s) = next_crypto s"
  "dh_server_signature (buffer_add bs s) = dh_server_signature s"
  "session_state (buffer_add bs s) = session_state s"
  "dh_handshake_state (buffer_add bs s) = dh_handshake_state s"
  "heap (buffer_add bs s) = heap s"
  by (simp_all add: buffer_add_def)

lemma packet_send_fields [simp]:
  "serverbanner (packet_send s) = serverbanner s"
  "current_crypto (packet_send s) = current_crypto s"
  "next_crypto (packet_send s) = next_crypto s"
  "dh_server_signature (packet_send s) = dh_server_signature s"
  "session_state (packet_send s) = session_state s"
  "dh_handshake_state (packet_send s) = dh_handshake_state s"
  "heap (packet_send s) = heap s"
  by (simp_all add: packet_send_def)

lemma ssh_set_error_fields [simp]:
  "serverbanner (ssh_set_error err s) = serverbanner s"
  "current_crypto (ssh_set_error err s) = current_crypto s"
  "next_crypto (ssh_set_error err s) = next_crypto s"
  "dh_server_signature (ssh_set_error err s) = dh_server_signature s"
  "session_state (ssh_set_error err s) = session_state s"
  "dh_handshake_state (ssh_set_error err s) = dh_handshake_state s"
  "heap (ssh_set_error err s) = heap s"
  by (simp_all add: ssh_set_error_def)

lemma set_status_fields [simp]:
  "serverbanner (set_status n s) = serverbanner s"
  "current_crypto (set_status n s) = current_crypto s"
  "next_crypto (set_status n s) = next_crypto s"
  "dh_server_signature (set_status n s) = dh_server_signature s"
  "session_state (set_status n s) = session_state s"
  "dh_handshake_state (set_status n s) = dh_handshake_state s"
  "version (set_status n s) = version s"
  "ssh1 (set_status n s) = ssh1 s"
  "ssh2 (set_status n s) = ssh2 s"
  "heap (set_status n s) = heap s"
  by (simp_all add: set_status_def)

lemma connection_error_fields [simp]:
  "session_state (connection_error s) = SSH_SESSION_STATE_ERROR"
  "alive (connection_error s) = 0"
  "socket_open (connection_error s) = False"
  "current_crypto (connection_error s) = current_crypto s"
  "next_crypto (connection_error s) = next_crypto s"
  "dh_server_signature (connection_error s) = dh_server_signature s"
  "serverbanner (connection_error s) = serverbanner s"
  "version (connection_error s) = version s"
  "last_error (connection_error s) = last_error s"
  "heap (connection_error s) = heap s"
  "dh_handshake_state (connection_error s) = dh_handshake_state s"
  by (simp_all add: connection_error_def ssh_socket_close_def)

lemma dh_error_fields [simp]:
  "serverbanner (snd (dh_error L s)) = serverbanner s"
  "current_crypto (snd (dh_error L s)) = current_crypto s"
  "next_crypto (snd (dh_error L s)) = next_crypto s"
  "dh_server_signature (snd (dh_error L s)) = dh_server_signature s"
  "session_state (snd (dh_error L s)) = session_state s"
  "dh_handshake_state (snd (dh_error L s)) = dh_handshake_state s"
  "length (heap (snd (dh_error L s))) = length (heap s)"
  "fst (dh_error L s) = l_rc L"
  by (simp_all add: dh_error_def)

lemmas dh_stage_defs = dh_handshake_def dh_init_def dh_init_to_send_def dh_init_sent_def
  dh_newkeys_to_send_def dh_newkeys_sent_def dh_error_def dh_locals_init_def
lemmas heap_defs = burn_and_free_def
  string_burn_def string_free_def crypto_free_def heap_alloc_def buffer_add_def
  packet_send_def ssh_set_error_def crypt_set_algorithms_def generate_session_keys_def
  crypto_empty_def






section \<open>The handshake that succeeds\<close>

lemma dh_newkeys_sent_ok:
  "dh_all_ok x \<Longrightarrow> dh_handshake_state (snd (dh_newkeys_sent x L s)) = DH_STATE_FINISHED"
  by (simp add: dh_all_ok_def dh_newkeys_sent_def Let_def)

lemma dh_newkeys_to_send_ok:
  "dh_all_ok x \<Longrightarrow> dh_handshake_state (snd (dh_newkeys_to_send x L s)) = DH_STATE_FINISHED"
  by (simp add: dh_newkeys_to_send_def dh_newkeys_sent_ok) (simp add: dh_all_ok_def)

lemma dh_init_sent_ok:
  "dh_all_ok x \<Longrightarrow> dh_handshake_state (snd (dh_init_sent x L s)) = DH_STATE_FINISHED"
  by (simp add: dh_init_sent_def Let_def dh_newkeys_to_send_ok split: option.splits)
     (auto simp add: dh_all_ok_def)

lemma dh_init_to_send_ok:
  "dh_all_ok x \<Longrightarrow> dh_handshake_state (snd (dh_init_to_send x L s)) = DH_STATE_FINISHED"
  by (simp add: dh_init_to_send_def dh_init_sent_ok) (simp add: dh_all_ok_def)

lemma dh_init_ok:
  "dh_all_ok x \<Longrightarrow> dh_handshake_state (snd (dh_init x L s)) = DH_STATE_FINISHED"
  by (simp add: dh_init_def Let_def dh_init_to_send_ok split: option.splits)
     (auto simp add: dh_all_ok_def)

lemma dh_handshake_ok:
  "dh_all_ok x \<Longrightarrow> dh_handshake_state (snd (dh_handshake x s)) = DH_STATE_FINISHED"
  by (cases "dh_handshake_state s")
     (simp_all add: dh_handshake_def dh_init_ok dh_init_to_send_ok dh_init_sent_ok
        dh_newkeys_to_send_ok dh_newkeys_sent_ok)

lemma example_dh_ext_ok: "dh_all_ok example_dh_ext"
  by (simp add: dh_all_ok_def example_dh_ext_def SSH_OK_def SSH_ERROR_def)

section \<open>The swap of the crypto contexts\<close>

lemma swapped_dh_error [simp]:
  "dh_handshake_state s \<noteq> DH_STATE_FINISHED \<Longrightarrow> swapped n cur nxt (snd (dh_error L s))"
  by (simp add: swapped_def)

lemma crypto_free_dead: "p < length (heap s) \<Longrightarrow> \<not> live (heap (crypto_free p s) ! p)"
  by (simp add: crypto_free_def)

lemma swapped_dh_newkeys_sent [simp]:
  assumes "n \<le> length (heap s)" "dh_handshake_state s \<noteq> DH_STATE_FINISHED"
    "cur = current_crypto s" "nxt = next_crypto s"
  shows "swapped n cur nxt (snd (dh_newkeys_sent x L s))"
proof (cases "current_crypto s")
  case None
  then show ?thesis using assms
    by (simp add: dh_newkeys_sent_def Let_def swapped_def heap_alloc_def nth_snoc_length)
next
  case (Some p)
  then show ?thesis using assms
    by (simp add: dh_newkeys_sent_def Let_def swapped_def heap_alloc_def nth_append
        nth_snoc_length crypto_free_dead)
qed

lemma swapped_dh_newkeys_to_send [simp]:
  "n \<le> length (heap s) \<Longrightarrow> dh_handshake_state s \<noteq> DH_STATE_FINISHED \<Longrightarrow>
   cur = current_crypto s \<Longrightarrow> nxt = next_crypto s \<Longrightarrow>
   swapped n cur nxt (snd (dh_newkeys_to_send x L s))"
  by (simp add: dh_newkeys_to_send_def)

lemma swapped_dh_init_sent [simp]:
  "n \<le> length (heap s) \<Longrightarrow> dh_handshake_state s \<noteq> DH_STATE_FINISHED \<Longrightarrow>
   cur = current_crypto s \<Longrightarrow> nxt = next_crypto s \<Longrightarrow>
   swapped n cur nxt (snd (dh_init_sent x L s))"
  by (simp add: dh_init_sent_def Let_def split: option.splits)

lemma swapped_dh_init_to_send [simp]:
  "n \<le> length (heap s) \<Longrightarrow> dh_handshake_state s \<noteq> DH_STATE_FINISHED \<Longrightarrow>
   cur = current_crypto s \<Longrightarrow> nxt = next_crypto s \<Longrightarrow>
   swapped n cur nxt (snd (dh_init_to_send x L s))"
  by (simp add: dh_init_to_send_def)

lemma swapped_dh_init [simp]:
  "n \<le> length (heap s) \<Longrightarrow> dh_handshake_state s \<noteq> DH_STATE_FINISHED \<Longrightarrow>
   cur = current_crypto s \<Longrightarrow> nxt = next_crypto s \<Longrightarrow>
   swapped n cur nxt (snd (dh_init x L s))"
  by (simp add: dh_init_def Let_def split: option.splits)

text \<open>
  Claim C6. A run of \<^verbatim>\<open>dh_handshake\<close> that reaches \<^verbatim>\<open>DH_STATE_FINISHED\<close> leaves as
  \<^verbatim>\<open>current_crypto\<close> the very object that was \<^verbatim>\<open>next_crypto\<close> before the run, has released
  the previous \<^verbatim>\<open>current_crypto\<close> (when there was one), and has installed as
  \<^verbatim>\<open>next_crypto\<close> an empty context at an address that was not in use before.
\<close>

theorem dh_handshake_finished_swap:
  assumes "dh_handshake_state s \<noteq> DH_STATE_FINISHED"
    and "dh_handshake_state (snd (dh_handshake x s)) = DH_STATE_FINISHED"
  shows "current_crypto (snd (dh_handshake x s)) = next_crypto s \<and>
         (\<forall>p. current_crypto s = Some p \<and> p < length (heap s) \<longrightarrow>
              \<not> live (heap (snd (dh_handshake x s)) ! p)) \<and>
         (\<exists>q. next_crypto (snd (dh_handshake x s)) = Some q \<and>
              length (heap s) \<le> q \<and> q < length (heap (snd (dh_handshake x s))) \<and>
              heap (snd (dh_handshake x s)) ! q = \<lparr>content = Crypto crypto_empty, live = True\<rparr>)"
proof -
  have "swapped (length (heap s)) (current_crypto s) (next_crypto s) (snd (dh_handshake x s))"
    using assms(1) by (cases "dh_handshake_state s") (simp_all add: dh_handshake_def)
  with assms(2) show ?thesis by (simp add: swapped_def)
qed

theorem dh_handshake_finished_swap_witness:
  "dh_handshake_state example_rekey_session \<noteq> DH_STATE_FINISHED \<and>
   dh_handshake_state (snd (dh_handshake example_dh_ext example_rekey_session)) = DH_STATE_FINISHED \<and>
   current_crypto example_rekey_session = Some 0 \<and>
   next_crypto example_rekey_session = Some 1 \<and>
   current_crypto (snd (dh_handshake example_dh_ext example_rekey_session)) = Some 1 \<and>
   \<not> live (heap (snd (dh_handshake example_dh_ext example_rekey_session)) ! 0) \<and>
   (\<exists>q. next_crypto (snd (dh_handshake example_dh_ext example_rekey_session)) = Some q \<and>
        length (heap example_rekey_session) \<le> q \<and>
        q < length (heap (snd (dh_handshake example_dh_ext example_rekey_session))) \<and>
        heap (snd (dh_handshake example_dh_ext example_rekey_session)) ! q =
          \<lparr>content = Crypto crypto_empty, live = True\<rparr>)"
proof -
  have a: "dh_handshake_state example_rekey_session \<noteq> DH_STATE_FINISHED"
    by (simp add: example_rekey_session_def example_session_def)
  have b: "dh_handshake_state (snd (dh_handshake example_dh_ext example_rekey_session)) =
      DH_STATE_FINISHED"
    by (rule dh_handshake_ok [OF example_dh_ext_ok])
  have c: "current_crypto example_rekey_session = Some 0"
    "next_crypto example_rekey_session = Some 1"
    "0 < length (heap example_rekey_session)"
    by (simp_all add: example_rekey_session_def)
  note T = dh_handshake_finished_swap [OF a b]
  have d: "\<not> live (heap (snd (dh_handshake example_dh_ext example_rekey_session)) ! 0)"
    using T c by blast
  have e: "current_crypto (snd (dh_handshake example_dh_ext example_rekey_session)) = Some 1"
    using T c(2) by simp
  show ?thesis using a b c(1,2) d e T by blast
qed

section \<open>A signature that does not verify\<close>




section \<open>Strings that stay referenced after an error\<close>

text \<open>
  Claim C8. An error exit of \<^verbatim>\<open>dh_handshake\<close> is to leave no reference to a string it has
  obtained and released. Here the reply of the server is complete and \<^verbatim>\<open>dh_build_k\<close>
  fails: the signature (address 3) is overwritten and released by the cleanup, and
  \<^verbatim>\<open>session->dh_server_signature\<close> still holds its address.
\<close>

theorem dh_build_k_failure_dangling_signature:
  "(case dh_handshake (example_dh_ext\<lparr>dh_build_k_rc := - 1\<rparr>)
          (example_session\<lparr>dh_handshake_state := DH_STATE_INIT_SENT\<rparr>) of
      (rc, s') \<Rightarrow>
        rc = SSH_ERROR \<and> dh_server_signature s' = Some 3 \<and>
        heap s' ! 3 = \<lparr>content = Str [NUL, NUL, NUL], live = False\<rparr>)"
  by (simp add: dh_stage_defs heap_defs example_dh_ext_def example_session_def SSH_OK_def
      SSH_ERROR_def Let_def)

section \<open>The result of connecting\<close>

text \<open>
  Claim C1. \<^verbatim>\<open>ssh_connect\<close> is to return 0 exactly when the loop ends in the state
  \<^verbatim>\<open>SSH_SESSION_STATE_AUTHENTICATING\<close>. Here the socket reports an exception: the loop
  ends in \<^verbatim>\<open>SSH_SESSION_STATE_ERROR\<close>, and the result is 0 all the same.
\<close>

theorem ssh_connect_returns_0_on_error:
  "(case ssh_connect \<lparr>ssh_init_rc = 0, ssh_socket_connect_rc = 0\<rparr>
           [(Exception 1 104, example_conn_ext)] (Some example_session) of
      Some (rc, Some s') \<Rightarrow> rc = 0 \<and> session_state s' = SSH_SESSION_STATE_ERROR
    | _ \<Rightarrow> False)"
  by (simp add: ssh_connect_def example_session_def Let_def SSH_OK_def SSH_ERROR_def set_status_def
      ssh_handle_packets_def socket_callback_exception_def connection_callback_def ssh_set_error_def)

section \<open>Disconnecting and the accessors\<close>

text \<open>
  Claim C9. \<^verbatim>\<open>ssh_disconnect\<close> is to leave \<^verbatim>\<open>alive = 0\<close> on every path. Here the
  socket is open and the first \<^verbatim>\<open>buffer_add_u8\<close> fails: the function jumps behind the
  assignment, and the session is returned as it was, alive and with its socket open.
\<close>

theorem ssh_disconnect_error_path_keeps_alive:
  "ssh_disconnect
     \<lparr>buffer_add_u8_disconnect_rc = - 1, buffer_add_u32_rc = 0, string_from_char_ok = True,
      buffer_add_ssh_string_rc = 0, packet_send_disconnect_rc = 0\<rparr>
     (Some (example_session\<lparr>socket_open := True, alive := 1\<rparr>)) =
   Some (example_session\<lparr>socket_open := True, alive := 1\<rparr>) \<and>
   alive (example_session\<lparr>socket_open := True, alive := 1\<rparr>) = 1 \<and>
   socket_open (example_session\<lparr>socket_open := True, alive := 1\<rparr>)"
  by (simp add: ssh_disconnect_def)

text \<open>
  Claim C10. For a \<^verbatim>\<open>NULL\<close> session \<^verbatim>\<open>ssh_get_openssh_version\<close> returns 0 and
  \<^verbatim>\<open>ssh_get_issue_banner\<close> returns \<^verbatim>\<open>NULL\<close>, and nothing else happens: no session
  comes back.
\<close>

theorem accessors_null_session:
  "ssh_get_openssh_version None = 0 \<and> ssh_get_issue_banner ok None = (None, None)"
  by (simp add: ssh_get_openssh_version_def ssh_get_issue_banner_def)

section \<open>The loop that reads the banner\<close>

lemma banner_loop_no_lf:
  "\<forall>j. i \<le> j \<and> j < length buffer \<longrightarrow> buffer ! j \<noteq> LF \<Longrightarrow> length buffer \<le> 128 \<Longrightarrow>
   fst (banner_loop x i buffer s) = 0 \<and> snd (snd (banner_loop x i buffer s)) = s"
proof (induction x i buffer s rule: banner_loop.induct)
  case (1 x i buffer s)
  show ?case
  proof (cases "i < length buffer")
    case False
    then show ?thesis by (simp add: banner_loop.simps [of x i buffer s])
  next
    case True
    let ?b = "if buffer ! i = CR then buffer[i := NUL] else buffer"
    have nlf: "buffer ! i \<noteq> LF" using True "1.prems"(1) by simp
    have nlf': "?b ! i \<noteq> LF" using True nlf by simp
    have small: "\<not> i > 127" using True "1.prems"(2) by simp
    have rest: "\<forall>j. i + 1 \<le> j \<and> j < length ?b \<longrightarrow> ?b ! j \<noteq> LF"
      using "1.prems"(1) by simp
    have len: "length ?b \<le> 128" using "1.prems"(2) by simp
    have step: "banner_loop x i buffer s = banner_loop x (i + 1) ?b s"
      using True nlf' small by (subst banner_loop.simps) simp
    from "1.IH" [OF True nlf' small rest len] step show ?thesis by simp
  qed
qed

lemma banner_loop_too_large:
  "\<forall>j. i \<le> j \<and> j \<le> 128 \<longrightarrow> buffer ! j \<noteq> LF \<Longrightarrow> 128 < length buffer \<Longrightarrow> i \<le> 128 \<Longrightarrow>
   fst (banner_loop x i buffer s) = 0 \<and>
   snd (snd (banner_loop x i buffer s)) =
     ssh_set_error Banner_too_large (s\<lparr>session_state := SSH_SESSION_STATE_ERROR\<rparr>)"
proof (induction x i buffer s rule: banner_loop.induct)
  case (1 x i buffer s)
  let ?b = "if buffer ! i = CR then buffer[i := NUL] else buffer"
  have True: "i < length buffer" using "1.prems" by simp
  have nlf: "buffer ! i \<noteq> LF" using "1.prems" by simp
  have nlf': "?b ! i \<noteq> LF" using True nlf by simp
  show ?case
  proof (cases "i > 127")
    case True
    then show ?thesis using \<open>i < length buffer\<close> nlf'
      by (subst (1 2) banner_loop.simps) simp
  next
    case False
    have rest: "\<forall>j. i + 1 \<le> j \<and> j \<le> 128 \<longrightarrow> ?b ! j \<noteq> LF"
      using "1.prems"(1) by simp
    have len: "128 < length ?b" using "1.prems"(2) by simp
    have i': "i + 1 \<le> 128" using False by simp
    have step: "banner_loop x i buffer s = banner_loop x (i + 1) ?b s"
      using True nlf' False by (subst banner_loop.simps) simp
    from "1.IH" [OF True nlf' False rest len i'] step show ?thesis by simp
  qed
qed

lemma banner_loop_lf:
  "\<forall>j. i \<le> j \<and> j < n \<longrightarrow> buffer ! j \<noteq> LF \<Longrightarrow> buffer ! n = LF \<Longrightarrow> n < length buffer \<Longrightarrow>
   n \<le> 128 \<Longrightarrow> i \<le> n \<Longrightarrow>
   \<exists>b'. banner_loop x i buffer s =
     (int n + 1, b',
      connection_callback x
        (s\<lparr>serverbanner := (if strdup_serverbanner_ok x then Some (c_str b') else None),
           session_state := SSH_SESSION_STATE_BANNER_RECEIVED\<rparr>)) \<and>
     length b' = length buffer \<and> b' ! n = NUL \<and>
     (\<forall>j < i. b' ! j = buffer ! j) \<and>
     (\<forall>j. i \<le> j \<and> j < n \<longrightarrow> b' ! j = (if buffer ! j = CR then NUL else buffer ! j))"
proof (induction x i buffer s rule: banner_loop.induct)
  case (1 x i buffer s)
  let ?b = "if buffer ! i = CR then buffer[i := NUL] else buffer"
  have True: "i < length buffer" using "1.prems" by simp
  show ?case
  proof (cases "i = n")
    case True
    then show ?thesis using "1.prems"
      by (subst banner_loop.simps) auto
  next
    case False
    then have lt: "i < n" using "1.prems" by simp
    have nlf: "buffer ! i \<noteq> LF" using "1.prems" lt by simp
    have nlf': "?b ! i \<noteq> LF" using True nlf by simp
    have small: "\<not> i > 127" using lt "1.prems" by simp
    have rest: "\<forall>j. i + 1 \<le> j \<and> j < n \<longrightarrow> ?b ! j \<noteq> LF"
      using "1.prems"(1) by simp
    have atn: "?b ! n = LF" using "1.prems"(2) lt by simp
    have len: "n < length ?b" using "1.prems"(3) by simp
    have i': "i + 1 \<le> n" using lt by simp
    have step: "banner_loop x i buffer s = banner_loop x (i + 1) ?b s"
      using True nlf' small by (subst banner_loop.simps) simp
    from "1.IH" [OF True nlf' small rest atn len "1.prems"(4) i'] obtain b' where
      b': "banner_loop x (i + 1) ?b s =
     (int n + 1, b',
      connection_callback x
        (s\<lparr>serverbanner := (if strdup_serverbanner_ok x then Some (c_str b') else None),
           session_state := SSH_SESSION_STATE_BANNER_RECEIVED\<rparr>))"
       "length b' = length ?b" "b' ! n = NUL"
       "\<forall>j < i + 1. b' ! j = ?b ! j"
       "\<forall>j. i + 1 \<le> j \<and> j < n \<longrightarrow> b' ! j = (if ?b ! j = CR then NUL else ?b ! j)"
      by blast
    have a: "\<forall>j < i. b' ! j = buffer ! j" using b'(4) by simp
    have b: "\<forall>j. i \<le> j \<and> j < n \<longrightarrow> b' ! j = (if buffer ! j = CR then NUL else buffer ! j)"
    proof (intro allI impI)
      fix j assume j: "i \<le> j \<and> j < n"
      show "b' ! j = (if buffer ! j = CR then NUL else buffer ! j)"
      proof (cases "j = i")
        case True
        then show ?thesis using b'(4) \<open>i < length buffer\<close> by simp
      next
        case False
        then show ?thesis using b'(5) j by simp
      qed
    qed
    show ?thesis using step b'(1,2,3) a b by simp
  qed
qed

lemma callback_receive_banner_line:
  assumes "LF \<notin> set bs" "length bs \<le> 128"
  shows "fst (callback_receive_banner x (bs @ LF # rest) s) = int (length bs) + 1 \<and>
         snd (snd (callback_receive_banner x (bs @ LF # rest) s)) =
           connection_callback x
             (s\<lparr>serverbanner :=
                  (if strdup_serverbanner_ok x
                   then Some (c_str (map (\<lambda>c. if c = CR then NUL else c) bs)) else None),
                session_state := SSH_SESSION_STATE_BANNER_RECEIVED\<rparr>)"
proof -
  let ?buf = "bs @ LF # rest" and ?n = "length bs"
  have nolf: "\<forall>j. 0 \<le> j \<and> j < ?n \<longrightarrow> ?buf ! j \<noteq> LF"
    using assms(1) by (auto simp add: nth_append dest: nth_mem)
  have atn: "?buf ! ?n = LF" by simp
  have len: "?n < length ?buf" by simp
  from banner_loop_lf [OF nolf atn len assms(2), of x s] obtain b' where
    b': "banner_loop x 0 ?buf s =
     (int ?n + 1, b',
      connection_callback x
        (s\<lparr>serverbanner := (if strdup_serverbanner_ok x then Some (c_str b') else None),
           session_state := SSH_SESSION_STATE_BANNER_RECEIVED\<rparr>))"
     "length b' = length ?buf" "b' ! ?n = NUL"
     "\<forall>j. 0 \<le> j \<and> j < ?n \<longrightarrow> b' ! j = (if ?buf ! j = CR then NUL else ?buf ! j)"
    by auto
  have "take ?n b' = map (\<lambda>c. if c = CR then NUL else c) bs"
    using b'(2,4) by (intro nth_equalityI) (simp_all add: nth_append)
  moreover have "c_str b' = c_str (take ?n b')"
    using b'(2,3) by (intro c_str_cut) simp_all
  ultimately have "c_str b' = c_str (map (\<lambda>c. if c = CR then NUL else c) bs)" by simp
  then show ?thesis using b'(1) by (simp add: callback_receive_banner_def)
qed

section \<open>Fields that the callbacks leave alone\<close>

lemma dh_newkeys_sent_serverbanner [simp]:
  "serverbanner (snd (dh_newkeys_sent x L s)) = serverbanner s"
  by (simp add: dh_newkeys_sent_def Let_def split: option.splits)

lemma dh_newkeys_to_send_serverbanner [simp]:
  "serverbanner (snd (dh_newkeys_to_send x L s)) = serverbanner s"
  by (simp add: dh_newkeys_to_send_def)

lemma dh_init_sent_serverbanner [simp]:
  "serverbanner (snd (dh_init_sent x L s)) = serverbanner s"
  by (simp add: dh_init_sent_def Let_def split: option.splits)

lemma dh_init_to_send_serverbanner [simp]:
  "serverbanner (snd (dh_init_to_send x L s)) = serverbanner s"
  by (simp add: dh_init_to_send_def)

lemma dh_init_serverbanner [simp]:
  "serverbanner (snd (dh_init x L s)) = serverbanner s"
  by (simp add: dh_init_def Let_def split: option.splits)

lemma dh_handshake_serverbanner [simp]:
  "serverbanner (snd (dh_handshake x s)) = serverbanner s"
  by (simp add: dh_handshake_def split: ssh_dh_state_e.splits)

lemma ssh_set_error_more_fields [simp]:
  "version (ssh_set_error err s) = version s"
  "ssh1 (ssh_set_error err s) = ssh1 s"
  "ssh2 (ssh_set_error err s) = ssh2 s"
  "last_error (ssh_set_error err s) = Some err"
  by (simp_all add: ssh_set_error_def)

lemma set_status_last_error [simp]: "last_error (set_status n s) = last_error s"
  by (simp add: set_status_def)

lemma openssh_version_fields [simp]:
  "serverbanner (openssh_version m s) = serverbanner s"
  "session_state (openssh_version m s) = session_state s"
  "version (openssh_version m s) = version s"
  "ssh1 (openssh_version m s) = ssh1 s"
  "ssh2 (openssh_version m s) = ssh2 s"
  "last_error (openssh_version m s) = last_error s"
  by (simp_all add: openssh_version_def Let_def split: option.splits)

lemma ssh_analyze_banner_fields [simp]:
  "serverbanner (snd (snd (snd (ssh_analyze_banner stray bnr a b s)))) = serverbanner s"
  "session_state (snd (snd (snd (ssh_analyze_banner stray bnr a b s)))) = session_state s"
  "version (snd (snd (snd (ssh_analyze_banner stray bnr a b s)))) = version s"
  "ssh1 (snd (snd (snd (ssh_analyze_banner stray bnr a b s)))) = ssh1 s"
  "ssh2 (snd (snd (snd (ssh_analyze_banner stray bnr a b s)))) = ssh2 s"
  by (simp_all add: ssh_analyze_banner_def Let_def)

lemma ssh_send_banner_client_fields [simp]:
  "serverbanner (snd (ssh_send_banner x 0 s)) = serverbanner s"
  "session_state (snd (ssh_send_banner x 0 s)) = session_state s"
  "version (snd (ssh_send_banner x 0 s)) = version s"
  "last_error (snd (ssh_send_banner x 0 s)) = last_error s"
  by (simp_all add: ssh_send_banner_def Let_def ssh_socket_write_def)

lemma connection_version_chosen_fields [simp]:
  "serverbanner (connection_version_chosen x s) = serverbanner s"
  "session_state (connection_version_chosen x s) = SSH_SESSION_STATE_INITIAL_KEX"
  "version (connection_version_chosen x s) = version s"
  "last_error (connection_version_chosen x s) = last_error s"
  by (simp_all add: connection_version_chosen_def set_status_def)

lemma connection_callback_serverbanner [simp]:
  "serverbanner (connection_callback x s) = serverbanner s"
  by (simp add: connection_callback_def connection_banner_received_def
      connection_initial_kex_def case_prod_beta
      split: ssh_session_state_e.splits option.splits)

section \<open>The banner that is not complete, and the banner that is too large\<close>

text \<open>
  Claim C3. For an input of at most 128 bytes without a line feed the callback that
  receives the banner returns 0 and leaves the session as it is, \<^verbatim>\<open>session_state\<close> and
  \<^verbatim>\<open>serverbanner\<close> included.
\<close>

theorem callback_receive_banner_incomplete:
  assumes "length bytes \<le> 128" and "LF \<notin> set bytes"
  shows "fst (callback_receive_banner x bytes s) = 0 \<and>
         snd (snd (callback_receive_banner x bytes s)) = s"
proof -
  have "\<forall>j. 0 \<le> j \<and> j < length bytes \<longrightarrow> bytes ! j \<noteq> LF"
    using assms(2) by (auto dest: nth_mem)
  from banner_loop_no_lf [OF this assms(1)] show ?thesis
    by (simp add: callback_receive_banner_def)
qed

theorem callback_receive_banner_incomplete_witness:
  "length ''SSH-2.0-OpenSSH_7.4'' \<le> 128 \<and> LF \<notin> set ''SSH-2.0-OpenSSH_7.4'' \<and>
   fst (callback_receive_banner example_conn_ext ''SSH-2.0-OpenSSH_7.4'' example_connected_session) = 0 \<and>
   snd (snd (callback_receive_banner example_conn_ext ''SSH-2.0-OpenSSH_7.4'' example_connected_session)) =
     example_connected_session"
proof -
  have a: "length ''SSH-2.0-OpenSSH_7.4'' \<le> 128" by simp
  have b: "LF \<notin> set ''SSH-2.0-OpenSSH_7.4''" by simp
  show ?thesis using a b callback_receive_banner_incomplete [OF a b] by blast
qed

text \<open>
  Claim C2 says that 128 bytes without a line feed fail as a banner that is too large.
  The test of the source is \<^verbatim>\<open>i > 127\<close> after the byte at the index \<open>i\<close> has been looked
  at, so that 128 bytes of the letter A leave the session out of the error state.
\<close>

theorem banner_128_bytes_not_too_large:
  "session_state (snd (snd (callback_receive_banner example_conn_ext (replicate 128 (CHR ''A''))
      example_connected_session))) \<noteq> SSH_SESSION_STATE_ERROR"
proof -
  have "\<forall>j. 0 \<le> j \<and> j < length (replicate 128 (CHR ''A'')) \<longrightarrow> replicate 128 (CHR ''A'') ! j \<noteq> LF"
    by simp
  from banner_loop_no_lf [OF this, of example_conn_ext example_connected_session]
  show ?thesis
    by (simp add: callback_receive_banner_def example_connected_session_def example_session_def)
qed

text \<open>
  Claim C2, amended. An input of exactly 128 bytes without a line feed returns 0 and
  leaves the session as it is; an input of 129 bytes without a line feed fails: the state
  becomes \<^verbatim>\<open>SSH_SESSION_STATE_ERROR\<close> with the error of the banner that is too large; an
  input of 127 bytes and a line feed is consumed (128 bytes) and its line, with each
  carriage return turned into the end of the string, is stored as the banner when
  \<^verbatim>\<open>strdup\<close> succeeds.
\<close>

theorem banner_length_boundary:
  assumes "LF \<notin> set a" "length a = 128"
    and "LF \<notin> set b" "length b = 129"
    and "LF \<notin> set c" "length c = 127" "strdup_serverbanner_ok x"
  shows "fst (callback_receive_banner x a s) = 0 \<and>
         snd (snd (callback_receive_banner x a s)) = s \<and>
         fst (callback_receive_banner x b s) = 0 \<and>
         session_state (snd (snd (callback_receive_banner x b s))) = SSH_SESSION_STATE_ERROR \<and>
         last_error (snd (snd (callback_receive_banner x b s))) = Some Banner_too_large \<and>
         serverbanner (snd (snd (callback_receive_banner x b s))) = serverbanner s \<and>
         fst (callback_receive_banner x (c @ [LF]) s) = 128 \<and>
         serverbanner (snd (snd (callback_receive_banner x (c @ [LF]) s))) =
           Some (c_str (map (\<lambda>ch. if ch = CR then NUL else ch) c))"
proof -
  have A: "\<forall>j. 0 \<le> j \<and> j < length a \<longrightarrow> a ! j \<noteq> LF"
    using assms(1) by (auto dest: nth_mem)
  have B: "\<forall>j. 0 \<le> j \<and> j \<le> 128 \<longrightarrow> b ! j \<noteq> LF"
  proof (intro allI impI)
    fix j :: nat assume "0 \<le> j \<and> j \<le> 128"
    then have "j < length b" using assms(4) by simp
    then have "b ! j \<in> set b" by (rule nth_mem)
    then show "b ! j \<noteq> LF" using assms(3) by metis
  qed
  have la: "length a \<le> 128" and lb: "128 < length b" and lc: "length c \<le> 128"
    using assms by simp_all
  note 1 = banner_loop_no_lf [OF A la, of x s]
  note 2 = banner_loop_too_large [OF B lb, of x s]
  note 3 = callback_receive_banner_line [OF assms(5) lc, of x "[]" s]
  show ?thesis using 1 2 3 assms(6,7)
    by (simp add: callback_receive_banner_def ssh_set_error_def)
qed

theorem banner_length_boundary_witness:
  "LF \<notin> set (replicate 128 (CHR ''A'')) \<and> length (replicate 128 (CHR ''A'')) = 128 \<and>
   LF \<notin> set (replicate 129 (CHR ''A'')) \<and> length (replicate 129 (CHR ''A'')) = 129 \<and>
   LF \<notin> set (replicate 127 (CHR ''A'')) \<and> length (replicate 127 (CHR ''A'')) = 127 \<and>
   strdup_serverbanner_ok example_conn_ext \<and>
   fst (callback_receive_banner example_conn_ext (replicate 128 (CHR ''A''))
          example_connected_session) = 0 \<and>
   snd (snd (callback_receive_banner example_conn_ext (replicate 128 (CHR ''A''))
          example_connected_session)) = example_connected_session \<and>
   session_state (snd (snd (callback_receive_banner example_conn_ext (replicate 129 (CHR ''A''))
          example_connected_session))) = SSH_SESSION_STATE_ERROR \<and>
   last_error (snd (snd (callback_receive_banner example_conn_ext (replicate 129 (CHR ''A''))
          example_connected_session))) = Some Banner_too_large \<and>
   fst (callback_receive_banner example_conn_ext (replicate 127 (CHR ''A'') @ [LF])
          example_connected_session) = 128 \<and>
   serverbanner (snd (snd (callback_receive_banner example_conn_ext
          (replicate 127 (CHR ''A'') @ [LF]) example_connected_session))) =
     Some (c_str (map (\<lambda>ch. if ch = CR then NUL else ch) (replicate 127 (CHR ''A''))))"
proof -
  have h: "LF \<notin> set (replicate 128 (CHR ''A''))" "length (replicate 128 (CHR ''A'')) = 128"
    "LF \<notin> set (replicate 129 (CHR ''A''))" "length (replicate 129 (CHR ''A'')) = 129"
    "LF \<notin> set (replicate 127 (CHR ''A''))" "length (replicate 127 (CHR ''A'')) = 127"
    "strdup_serverbanner_ok example_conn_ext"
    by (simp_all add: example_conn_ext_def)
  note T = banner_length_boundary [OF h, of example_connected_session]
  show ?thesis using h T by blast
qed

section \<open>The analysis of the banner\<close>

lemma ssh_analyze_banner_1_99:
  assumes "take 9 bnr = ''SSH-1.99-''"
  shows "ssh_analyze_banner stray bnr a b s = (0, 1, 1, openssh_version (bnr @ NUL # stray) s)"
proof -
  have "bnr = ''SSH-1.99-'' @ drop 9 bnr"
    using append_take_drop_id [of 9 bnr] assms by simp
  then obtain rest where bnr: "bnr = ''SSH-1.99-'' @ rest" ..
  show ?thesis
    by (simp add: bnr ssh_analyze_banner_def Let_def c_str_def c_read_def)
qed

text \<open>
  Claim C4. For a banner that starts with \<^verbatim>\<open>SSH-1.99-\<close> the analysis succeeds and sets
  both \<^verbatim>\<open>ssh1\<close> and \<^verbatim>\<open>ssh2\<close>; \<^verbatim>\<open>connection_callback\<close> then sets the version to
  2 when SSHv2 is allowed locally, else to 1 when SSHv1 is allowed, and goes on to the
  initial key exchange; when neither is allowed the session fails: its state is
  \<^verbatim>\<open>SSH_SESSION_STATE_ERROR\<close> and the error is that no version is usable.
\<close>

theorem ssh_1_99_banner_version:
  assumes "take 9 bnr = ''SSH-1.99-''"
    and "session_state s = SSH_SESSION_STATE_BANNER_RECEIVED"
    and "serverbanner s = Some bnr"
  shows "fst (ssh_analyze_banner stray bnr a b s) = 0 \<and>
         fst (snd (ssh_analyze_banner stray bnr a b s)) = 1 \<and>
         fst (snd (snd (ssh_analyze_banner stray bnr a b s))) = 1 \<and>
         version (connection_callback x s) =
           (if ssh2 s = 0 then (if ssh1 s = 0 then version s else 1) else 2) \<and>
         session_state (connection_callback x s) =
           (if ssh2 s = 0 \<and> ssh1 s = 0 then SSH_SESSION_STATE_ERROR
            else SSH_SESSION_STATE_INITIAL_KEX) \<and>
         last_error (connection_callback x s) =
           (if ssh2 s = 0 \<and> ssh1 s = 0 then Some (No_version_usable (c_str bnr))
            else last_error s)"
proof -
  note an = ssh_analyze_banner_1_99 [OF assms(1)]
  have cb: "connection_callback x s = connection_banner_received x s"
    using assms(2) by (simp add: connection_callback_def)
  show ?thesis using assms(3)
    by (simp add: cb connection_banner_received_def an)
qed

theorem ssh_1_99_banner_version_witness:
  "take 9 ''SSH-1.99-OpenSSH_3.9p1'' = ''SSH-1.99-'' \<and>
   session_state example_banner_session = SSH_SESSION_STATE_BANNER_RECEIVED \<and>
   serverbanner example_banner_session = Some ''SSH-1.99-OpenSSH_3.9p1'' \<and>
   ssh2 example_banner_session = 1 \<and>
   fst (snd (ssh_analyze_banner [] ''SSH-1.99-OpenSSH_3.9p1'' 0 0 example_banner_session)) = 1 \<and>
   fst (snd (snd (ssh_analyze_banner [] ''SSH-1.99-OpenSSH_3.9p1'' 0 0 example_banner_session))) = 1 \<and>
   version (connection_callback example_conn_ext example_banner_session) = 2 \<and>
   session_state (connection_callback example_conn_ext example_banner_session) =
     SSH_SESSION_STATE_INITIAL_KEX \<and>
   version (connection_callback example_conn_ext (example_banner_session\<lparr>ssh1 := 1, ssh2 := 0\<rparr>)) = 1 \<and>
   session_state (connection_callback example_conn_ext (example_banner_session\<lparr>ssh2 := 0\<rparr>)) =
     SSH_SESSION_STATE_ERROR"
proof -
  have p: "take 9 ''SSH-1.99-OpenSSH_3.9p1'' = ''SSH-1.99-''" by simp
  have h: "session_state example_banner_session = SSH_SESSION_STATE_BANNER_RECEIVED"
    "serverbanner example_banner_session = Some ''SSH-1.99-OpenSSH_3.9p1''"
    "ssh2 example_banner_session = 1" "ssh1 example_banner_session = 0"
    by (simp_all add: example_banner_session_def example_session_def)
  have h1: "session_state (example_banner_session\<lparr>ssh1 := 1, ssh2 := 0\<rparr>) =
      SSH_SESSION_STATE_BANNER_RECEIVED"
    "serverbanner (example_banner_session\<lparr>ssh1 := 1, ssh2 := 0\<rparr>) = Some ''SSH-1.99-OpenSSH_3.9p1''"
    using h by simp_all
  have h0: "session_state (example_banner_session\<lparr>ssh2 := 0\<rparr>) = SSH_SESSION_STATE_BANNER_RECEIVED"
    "serverbanner (example_banner_session\<lparr>ssh2 := 0\<rparr>) = Some ''SSH-1.99-OpenSSH_3.9p1''"
    using h by simp_all
  note T = ssh_1_99_banner_version [OF p h(1,2), of "[]" 0 0 example_conn_ext]
  note T1 = ssh_1_99_banner_version [OF p h1, of "[]" 0 0 example_conn_ext]
  note T0 = ssh_1_99_banner_version [OF p h0, of "[]" 0 0 example_conn_ext]
  have a: "version (connection_callback example_conn_ext example_banner_session) = 2"
    "session_state (connection_callback example_conn_ext example_banner_session) =
       SSH_SESSION_STATE_INITIAL_KEX"
    using T h(3) by simp_all
  have b: "version (connection_callback example_conn_ext
      (example_banner_session\<lparr>ssh1 := 1, ssh2 := 0\<rparr>)) = 1"
    using T1 by simp
  have c: "session_state (connection_callback example_conn_ext
      (example_banner_session\<lparr>ssh2 := 0\<rparr>)) = SSH_SESSION_STATE_ERROR"
    using T0 h(4) by simp
  show ?thesis using p h(1,2,3) T a b c by blast
qed

section \<open>The version of OpenSSH\<close>

lemma version_word_of_int: "(push_bit 16 (word_of_int a) OR push_bit 8 (word_of_int b) OR word_of_int 0 :: 32 word)
   = word_of_int (push_bit 16 a OR push_bit 8 b)"
  by (simp add: word_wi_log_defs push_bit_of_int)

lemma push_bit_16_bound: "0 \<le> a \<Longrightarrow> a < 2 ^ 15 \<Longrightarrow> push_bit 16 a < (2::int) ^ 31"
  by (simp add: push_bit_eq_mult)

lemma push_bit_8_bound: "0 \<le> b \<Longrightarrow> b < 2 ^ 23 \<Longrightarrow> push_bit 8 b < (2::int) ^ 31"
  by (simp add: push_bit_eq_mult)

lemma SSH_VERSION_INT_small:
  assumes "0 \<le> a" "a < 2 ^ 15" "0 \<le> b" "b < 2 ^ 23"
  shows "SSH_VERSION_INT a b 0 = push_bit 16 a OR push_bit 8 b"
proof -
  have up: "push_bit 16 a OR push_bit 8 b < 2 ^ 31"
    using assms by (intro OR_upper push_bit_16_bound push_bit_8_bound) simp_all
  have lo: "0 \<le> push_bit 16 a OR push_bit 8 b"
    using assms by simp
  have "SSH_VERSION_INT a b 0 = signed_take_bit 31 (push_bit 16 a OR push_bit 8 b)"
    unfolding SSH_VERSION_INT_def version_word_of_int by (simp add: sint_sbintrunc')
  also have "\<dots> = push_bit 16 a OR push_bit 8 b"
  proof (rule signed_take_bit_int_eq_self)
    show "- (2 ^ 31) \<le> push_bit 16 a OR push_bit 8 b" by (rule order_trans [OF _ lo]) simp
    show "push_bit 16 a OR push_bit 8 b < 2 ^ 31" by (rule up)
  qed
  finally show ?thesis .
qed

lemma long_to_int_small: "0 \<le> v \<Longrightarrow> v < 2 ^ 31 \<Longrightarrow> long_to_int v = v"
  by (simp add: long_to_int_def sint_sbintrunc' signed_take_bit_int_eq_self)

lemma isdigit_not_space: "isdigit c \<Longrightarrow> \<not> isspace c \<and> c \<noteq> CHR ''-'' \<and> c \<noteq> CHR ''+''"
  by (auto simp add: isdigit_def isspace_def)

lemma isdigit_val: "isdigit c \<Longrightarrow> (of_char c :: nat) - 48 \<le> 9"
  unfolding isdigit_def by arith

lemma strtol_one_digit:
  assumes "isdigit d" "\<not> isdigit e"
  shows "strtol (d # e # rest) = int (of_char d - 48)"
  using assms isdigit_not_space [OF assms(1)] isdigit_val [OF assms(1)]
  by (simp add: strtol_def)


lemma c_str_terminated: "NUL \<notin> set bnr \<Longrightarrow> c_str (bnr @ NUL # stray) = bnr"
  by (auto simp add: c_str_def takeWhile_stop)

lemma accepted_prefix:
  assumes "take 5 bnr = ''SSH-1'' \<or> take 5 bnr = ''SSH-2''" "NUL \<notin> set bnr"
  shows "fst (ssh_analyze_banner stray bnr a b s) = 0 \<and>
         snd (snd (snd (ssh_analyze_banner stray bnr a b s))) = openssh_version (bnr @ NUL # stray) s"
proof -
  have "bnr = take 5 bnr @ drop 5 bnr" by simp
  then obtain rest where "bnr = ''SSH-1'' @ rest \<or> bnr = ''SSH-2'' @ rest"
    using assms(1) by metis
  then show ?thesis
  proof
    assume "bnr = ''SSH-1'' @ rest"
    then show ?thesis
      by (simp add: ssh_analyze_banner_def Let_def c_str_def c_read_def)
  next
    assume "bnr = ''SSH-2'' @ rest"
    then show ?thesis
      by (simp add: ssh_analyze_banner_def Let_def c_str_def c_read_def)
  qed
qed

lemma openssh_ssh_set_error [simp]: "openssh (ssh_set_error err s) = openssh s"
  by (simp add: ssh_set_error_def)

lemma analyze_without_openssh:
  assumes "NUL \<notin> set bnr" "strstr bnr ''OpenSSH'' = None"
  shows "openssh (snd (snd (snd (ssh_analyze_banner stray bnr a b s)))) = openssh s"
  using assms by (simp add: ssh_analyze_banner_def Let_def c_str_terminated openssh_version_def)

lemma drop_two:
  "Suc i < length xs \<Longrightarrow> drop i xs = xs ! i # xs ! Suc i # drop (Suc (Suc i)) xs"
  by (simp add: Cons_nth_drop_Suc)

lemma openssh_version_digits:
  assumes nul: "NUL \<notin> set bnr"
    and at: "strstr bnr ''OpenSSH'' = Some k"
    and len: "k + 10 < length bnr"
    and dig: "isdigit (bnr ! (k + 8))" "\<not> isdigit (bnr ! (k + 9))"
      "isdigit (bnr ! (k + 10))" "\<not> isdigit (c_read bnr (k + 11))"
  shows "openssh (openssh_version (bnr @ NUL # stray) s) =
           push_bit 16 (int (of_char (bnr ! (k + 8)) - 48)) OR
           push_bit 8 (int (of_char (bnr ! (k + 10)) - 48))"
proof -
  let ?m = "bnr @ NUL # stray"
  have s8: "Suc (k + 8) = k + 9" "Suc (k + 9) = k + 10"
    and s10: "Suc (k + 10) = k + 11" "Suc (k + 11) = k + 12"
    by simp_all
  have lm: "k + 9 < length ?m" "k + 11 < length ?m" using len by simp_all
  have "drop (k + 8) ?m = ?m ! (k + 8) # ?m ! (k + 9) # drop (k + 10) ?m"
    using drop_two [of "k + 8" ?m] lm(1) unfolding s8 by blast
  moreover have "?m ! (k + 8) = bnr ! (k + 8)" "?m ! (k + 9) = bnr ! (k + 9)"
    using len by (simp_all add: nth_append)
  ultimately have d8: "drop (k + 8) ?m = bnr ! (k + 8) # bnr ! (k + 9) # drop (k + 10) ?m"
    by simp
  have "drop (k + 10) ?m = ?m ! (k + 10) # ?m ! (k + 11) # drop (k + 12) ?m"
    using drop_two [of "k + 10" ?m] lm(2) unfolding s10 by blast
  moreover have "?m ! (k + 10) = bnr ! (k + 10)" "?m ! (k + 11) = c_read bnr (k + 11)"
    using len by (auto simp add: nth_append c_read_def)
  ultimately have d10:
    "drop (k + 10) ?m = bnr ! (k + 10) # c_read bnr (k + 11) # drop (k + 12) ?m"
    by simp
  have major: "strtol (drop (k + 8) ?m) = int (of_char (bnr ! (k + 8)) - 48)"
    unfolding d8 by (rule strtol_one_digit [OF dig(1,2)])
  have minor: "strtol (drop (k + 10) ?m) = int (of_char (bnr ! (k + 10)) - 48)"
    unfolding d10 by (rule strtol_one_digit [OF dig(3,4)])
  have small: "int (of_char (bnr ! (k + 8)) - 48) \<le> 9" "int (of_char (bnr ! (k + 10)) - 48) \<le> 9"
    using isdigit_val [OF dig(1)] isdigit_val [OF dig(3)] by simp_all
  have "openssh (openssh_version ?m s) =
          SSH_VERSION_INT (long_to_int (strtol (drop (k + 8) ?m)))
            (long_to_int (strtol (drop (k + 10) ?m))) 0"
    by (simp add: openssh_version_def c_str_terminated [OF nul] at Let_def del: drop_append)
  also have "\<dots> =
          SSH_VERSION_INT (int (of_char (bnr ! (k + 8)) - 48)) (int (of_char (bnr ! (k + 10)) - 48)) 0"
    unfolding major minor using small by (simp add: long_to_int_small)
  also have "\<dots> = push_bit 16 (int (of_char (bnr ! (k + 8)) - 48)) OR
           push_bit 8 (int (of_char (bnr ! (k + 10)) - 48))"
    using small by (intro SSH_VERSION_INT_small) simp_all
  finally show ?thesis .
qed

text \<open>
  Claim C5 says that major and minor are one-digit fields. The source calls
  \<^verbatim>\<open>strtol\<close>, which reads as many digits as there are: for \<^verbatim>\<open>OpenSSH_7.10\<close> the
  minor is 10 and the version is \<^verbatim>\<open>0x070a00\<close>, where one-digit fields give
  \<^verbatim>\<open>0x070100\<close>.
\<close>

theorem openssh_version_two_digit_minor:
  "ssh_get_openssh_version
     (Some (snd (snd (snd (ssh_analyze_banner [] ''SSH-2.0-OpenSSH_7.10'' 0 0 example_session))))) = 461312 \<and>
   openssh_one_digit_spec ''SSH-2.0-OpenSSH_7.10'' = 459008"
  by (simp add: ssh_analyze_banner_def Let_def c_str_def c_read_def openssh_version_def strtol_def
      isspace_def isdigit_def long_to_int_def SSH_VERSION_INT_def ssh_get_openssh_version_def
      openssh_one_digit_spec_def digit_field_def)

text \<open>
  Claim C5, amended. For a banner that the analysis accepts (it starts with
  \<^verbatim>\<open>SSH-1\<close> or \<^verbatim>\<open>SSH-2\<close>) and in which the first \<^verbatim>\<open>OpenSSH\<close> is followed, at the
  offsets 8 and 10, by two decimal digits each followed by something that is not a digit,
  the analysis stores \<^verbatim>\<open>(major<<16)|(minor<<8)\<close> for these two digits, and the accessor
  returns it. For a banner without \<^verbatim>\<open>OpenSSH\<close>, analysed on a session whose field
  \<^verbatim>\<open>openssh\<close> is 0, as it is in a new session, the accessor returns 0.
\<close>

theorem openssh_version_one_digit_fields:
  assumes "take 5 bnr = ''SSH-1'' \<or> take 5 bnr = ''SSH-2''" "NUL \<notin> set bnr"
    and "strstr bnr ''OpenSSH'' = Some k" "k + 10 < length bnr"
    and "isdigit (bnr ! (k + 8))" "\<not> isdigit (bnr ! (k + 9))"
      "isdigit (bnr ! (k + 10))" "\<not> isdigit (c_read bnr (k + 11))"
    and "NUL \<notin> set other" "strstr other ''OpenSSH'' = None" "openssh s0 = 0"
  shows "fst (ssh_analyze_banner stray bnr a b s) = 0 \<and>
         ssh_get_openssh_version (Some (snd (snd (snd (ssh_analyze_banner stray bnr a b s))))) =
           push_bit 16 (int (of_char (bnr ! (k + 8)) - 48)) OR
           push_bit 8 (int (of_char (bnr ! (k + 10)) - 48)) \<and>
         ssh_get_openssh_version (Some (snd (snd (snd (ssh_analyze_banner stray bnr a b s))))) =
           openssh_one_digit_spec bnr \<and>
         ssh_get_openssh_version (Some (snd (snd (snd (ssh_analyze_banner stray other a b s0))))) =
           0"
proof -
  note acc = accepted_prefix [OF assms(1,2), of stray a b s]
  note ver = openssh_version_digits [OF assms(2-8), of stray s]
  have spec: "openssh_one_digit_spec bnr =
           push_bit 16 (int (of_char (bnr ! (k + 8)) - 48)) OR
           push_bit 8 (int (of_char (bnr ! (k + 10)) - 48))"
    using assms(3-5,7) by (simp add: openssh_one_digit_spec_def c_read_def digit_field_def)
  show ?thesis
    using acc ver spec analyze_without_openssh [OF assms(9,10), of stray a b s0] assms(11)
    by (simp add: ssh_get_openssh_version_def)
qed

theorem openssh_version_one_digit_fields_witness:
  "(take 5 ''SSH-2.0-OpenSSH_7.4'' = ''SSH-1'' \<or> take 5 ''SSH-2.0-OpenSSH_7.4'' = ''SSH-2'') \<and>
   NUL \<notin> set ''SSH-2.0-OpenSSH_7.4'' \<and>
   strstr ''SSH-2.0-OpenSSH_7.4'' ''OpenSSH'' = Some 8 \<and>
   8 + 10 < length ''SSH-2.0-OpenSSH_7.4'' \<and>
   isdigit (''SSH-2.0-OpenSSH_7.4'' ! (8 + 8)) \<and>
   \<not> isdigit (''SSH-2.0-OpenSSH_7.4'' ! (8 + 9)) \<and>
   isdigit (''SSH-2.0-OpenSSH_7.4'' ! (8 + 10)) \<and>
   \<not> isdigit (c_read ''SSH-2.0-OpenSSH_7.4'' (8 + 11)) \<and>
   NUL \<notin> set ''SSH-2.0-dropbear'' \<and>
   strstr ''SSH-2.0-dropbear'' ''OpenSSH'' = None \<and>
   openssh example_session = 0 \<and>
   fst (ssh_analyze_banner [] ''SSH-2.0-OpenSSH_7.4'' 0 0 example_session) = 0 \<and>
   ssh_get_openssh_version
     (Some (snd (snd (snd (ssh_analyze_banner [] ''SSH-2.0-OpenSSH_7.4'' 0 0 example_session))))) =
     openssh_one_digit_spec ''SSH-2.0-OpenSSH_7.4'' \<and>
   ssh_get_openssh_version
     (Some (snd (snd (snd (ssh_analyze_banner [] ''SSH-2.0-dropbear'' 0 0 example_session))))) = 0"
proof -
  have h: "take 5 ''SSH-2.0-OpenSSH_7.4'' = ''SSH-1'' \<or> take 5 ''SSH-2.0-OpenSSH_7.4'' = ''SSH-2''"
    "NUL \<notin> set ''SSH-2.0-OpenSSH_7.4''"
    "strstr ''SSH-2.0-OpenSSH_7.4'' ''OpenSSH'' = Some 8"
    "8 + 10 < length ''SSH-2.0-OpenSSH_7.4''"
    "isdigit (''SSH-2.0-OpenSSH_7.4'' ! (8 + 8))"
    "\<not> isdigit (''SSH-2.0-OpenSSH_7.4'' ! (8 + 9))"
    "isdigit (''SSH-2.0-OpenSSH_7.4'' ! (8 + 10))"
    "\<not> isdigit (c_read ''SSH-2.0-OpenSSH_7.4'' (8 + 11))"
    "NUL \<notin> set ''SSH-2.0-dropbear''"
    "strstr ''SSH-2.0-dropbear'' ''OpenSSH'' = None"
    "openssh example_session = 0"
    by (simp_all add: isdigit_def c_read_def example_session_def)
  note T = openssh_version_one_digit_fields [OF h, of "[]" 0 0 example_session]
  show ?thesis using h T by blast
qed

end
